theory Spec2Isabelle
  imports Main "HOL-Library.AList"
begin

section \<open>Abstract values\<close>

text \<open>
  The matcher of \<^verbatim>\<open>pytype/matcher.py\<close> works on the abstract values of the analyzer.
  The classes of \<^verbatim>\<open>pytype.abstract\<close> are a closed family here: one constructor per
  class the matcher tests with \<^verbatim>\<open>isinstance\<close>, holding the fields the matcher reads.
  A \<^verbatim>\<open>cfg.Variable\<close> is an object with identity: it is an address (a number) into
  the program's table of variables, which lives in the matcher state below.
\<close>

type_synonym variable = nat

text \<open>Keys of \<^verbatim>\<open>formal_type_parameters\<close>: positions (tuple and callable arguments) or names.\<close>

datatype key = Index nat | Name string

datatype val =
    Unknown
  | Unsolvable
  | Empty
  | NoReturn
  | TypeParameter string string "val list" "val option"
  | TypeParameterInstance val container
  | Union "val list"
  | FinalAnnotation val
  | Class string
  | ParameterizedClass val "(key \<times> val) list"
  | TupleClass val "(key \<times> val) list" nat
  | CallableClass val "(key \<times> val) list" nat
  | LiteralClass val val
  | TypedDictClass string "(string \<times> variable) list" "string list"
  | Instance val "(string \<times> variable) list"
  | Dict val "(string \<times> variable) list"
  | Module string
  | Function string
  | OtherValue string
and container =
    ValueContainer val
  | SignatureContainer
  | DUMMY_CONTAINER

text \<open>
  \<^verbatim>\<open>TypeParameter name full_name constraints bound\<close>;
  \<^verbatim>\<open>TypeParameterInstance param instance\<close>;
  \<^verbatim>\<open>ParameterizedClass base_cls formal_type_parameters\<close>;
  \<^verbatim>\<open>TupleClass base_cls formal_type_parameters tuple_length\<close>;
  \<^verbatim>\<open>CallableClass base_cls formal_type_parameters num_args\<close>;
  \<^verbatim>\<open>LiteralClass base_cls value\<close>;
  \<^verbatim>\<open>TypedDictClass full_name props.fields props.required\<close>;
  \<^verbatim>\<open>Instance cls instance_type_parameters\<close>; \<^verbatim>\<open>Dict cls pyval\<close>.
  \<^verbatim>\<open>OtherValue\<close> stands for the variants whose matching is left to a collaborator:
  field instances, super proxies, class methods and static methods.
\<close>

subsection \<open>The tests the matcher makes with isinstance\<close>

fun is_AMBIGUOUS :: "val \<Rightarrow> bool" where
  "is_AMBIGUOUS Unknown = True"
| "is_AMBIGUOUS Unsolvable = True"
| "is_AMBIGUOUS _ = False"

fun is_AMBIGUOUS_OR_EMPTY :: "val \<Rightarrow> bool" where
  "is_AMBIGUOUS_OR_EMPTY Unknown = True"
| "is_AMBIGUOUS_OR_EMPTY Unsolvable = True"
| "is_AMBIGUOUS_OR_EMPTY Empty = True"
| "is_AMBIGUOUS_OR_EMPTY _ = False"

fun is_TypeParameter :: "val \<Rightarrow> bool" where
  "is_TypeParameter (TypeParameter n fn cs b) = True"
| "is_TypeParameter _ = False"

fun is_Union :: "val \<Rightarrow> bool" where
  "is_Union (Union os) = True"
| "is_Union _ = False"

fun is_ParameterizedClass :: "val \<Rightarrow> bool" where
  "is_ParameterizedClass (ParameterizedClass b ps) = True"
| "is_ParameterizedClass (TupleClass b ps n) = True"
| "is_ParameterizedClass (CallableClass b ps n) = True"
| "is_ParameterizedClass (LiteralClass b v) = True"
| "is_ParameterizedClass _ = False"

fun is_TupleClass :: "val \<Rightarrow> bool" where
  "is_TupleClass (TupleClass b ps n) = True"
| "is_TupleClass _ = False"

fun is_CallableClass :: "val \<Rightarrow> bool" where
  "is_CallableClass (CallableClass b ps n) = True"
| "is_CallableClass _ = False"

fun is_LiteralClass :: "val \<Rightarrow> bool" where
  "is_LiteralClass (LiteralClass b v) = True"
| "is_LiteralClass _ = False"

fun is_TypedDictClass :: "val \<Rightarrow> bool" where
  "is_TypedDictClass (TypedDictClass n fs r) = True"
| "is_TypedDictClass _ = False"

fun is_Class :: "val \<Rightarrow> bool" where
  "is_Class (Class n) = True"
| "is_Class (TypedDictClass n fs r) = True"
| "is_Class v = is_ParameterizedClass v"

fun is_Instance :: "val \<Rightarrow> bool" where
  "is_Instance (Instance c ps) = True"
| "is_Instance (Dict c kv) = True"
| "is_Instance (Module n) = True"
| "is_Instance _ = False"

fun is_Module :: "val \<Rightarrow> bool" where
  "is_Module (Module n) = True"
| "is_Module _ = False"

fun is_Function :: "val \<Rightarrow> bool" where
  "is_Function (Function n) = True"
| "is_Function _ = False"

text \<open>
  \<^verbatim>\<open>SimpleValue\<close>: instances, modules, functions and the classes that are not
  parameterizations (\<^verbatim>\<open>ParameterizedClass\<close> derives from \<^verbatim>\<open>BaseValue\<close> only).
\<close>

fun is_SimpleValue :: "val \<Rightarrow> bool" where
  "is_SimpleValue (Instance c ps) = True"
| "is_SimpleValue (Dict c kv) = True"
| "is_SimpleValue (Module n) = True"
| "is_SimpleValue (Function n) = True"
| "is_SimpleValue (Class n) = True"
| "is_SimpleValue (TypedDictClass n fs r) = True"
| "is_SimpleValue _ = False"

text \<open>
  \<^verbatim>\<open>left\<close> is a \<^verbatim>\<open>TypeParameterInstance\<close> whose \<^verbatim>\<open>instance\<close> is a callable class, a
  signature or the dummy container (matcher.py, lines 344 to 347).
\<close>

fun is_callable_TypeParameterInstance :: "val \<Rightarrow> bool" where
  "is_callable_TypeParameterInstance (TypeParameterInstance p (ValueContainer c)) = is_CallableClass c"
| "is_callable_TypeParameterInstance (TypeParameterInstance p SignatureContainer) = True"
| "is_callable_TypeParameterInstance (TypeParameterInstance p DUMMY_CONTAINER) = True"
| "is_callable_TypeParameterInstance _ = False"

fun instance_is_CallableClass :: "val \<Rightarrow> bool" where
  "instance_is_CallableClass (TypeParameterInstance p (ValueContainer c)) = is_CallableClass c"
| "instance_is_CallableClass _ = False"

subsection \<open>Attributes read by the matcher\<close>

text \<open>
  \<^verbatim>\<open>full_name\<close> of a class is the name stored in it; a parameterization has the name
  of its base class; a type parameter stores \<^verbatim>\<open>name\<close> and \<^verbatim>\<open>full_name\<close> separately.
  The other variants have no qualified name the matcher compares with: they get a
  name in angle brackets, different from every class name.
\<close>

fun full_name :: "val \<Rightarrow> string" where
  "full_name (Class n) = n"
| "full_name (TypedDictClass n fs r) = n"
| "full_name (ParameterizedClass b ps) = full_name b"
| "full_name (TupleClass b ps n) = full_name b"
| "full_name (CallableClass b ps n) = full_name b"
| "full_name (LiteralClass b v) = full_name b"
| "full_name (TypeParameter n fn cs b) = fn"
| "full_name (Module n) = n"
| "full_name (Function n) = n"
| "full_name Unknown = ''<unknown>''"
| "full_name Unsolvable = ''<unsolvable>''"
| "full_name Empty = ''<empty>''"
| "full_name NoReturn = ''<noreturn>''"
| "full_name _ = ''<value>''"

fun name :: "val \<Rightarrow> string" where
  "name (TypeParameter n fn cs b) = n"
| "name v = full_name v"

fun constraints :: "val \<Rightarrow> val list" where
  "constraints (TypeParameter n fn cs b) = cs"
| "constraints _ = []"

fun bound :: "val \<Rightarrow> val option" where
  "bound (TypeParameter n fn cs b) = b"
| "bound _ = None"

fun options :: "val \<Rightarrow> val list" where
  "options (Union os) = os"
| "options _ = []"

fun base_cls :: "val \<Rightarrow> val" where
  "base_cls (ParameterizedClass b ps) = b"
| "base_cls (TupleClass b ps n) = b"
| "base_cls (CallableClass b ps n) = b"
| "base_cls (LiteralClass b v) = b"
| "base_cls v = v"

fun formal_type_parameters :: "val \<Rightarrow> (key \<times> val) list" where
  "formal_type_parameters (ParameterizedClass b ps) = ps"
| "formal_type_parameters (TupleClass b ps n) = ps"
| "formal_type_parameters (CallableClass b ps n) = ps"
| "formal_type_parameters _ = []"

fun num_args :: "val \<Rightarrow> nat" where
  "num_args (CallableClass b ps n) = n"
| "num_args _ = 0"

text \<open>The names of \<^verbatim>\<open>abstract_utils\<close> for the special type parameters.\<close>

definition abstract_utils_T :: string where
  "abstract_utils_T = ''_T''"

definition abstract_utils_ARGS :: string where
  "abstract_utils_ARGS = ''_ARGS''"

definition abstract_utils_RET :: string where
  "abstract_utils_RET = ''_RET''"

section \<open>Bindings, views, substitutions and errors\<close>

text \<open>
  A \<^verbatim>\<open>cfg.Binding\<close> belongs to one variable and holds one value. A view chooses a
  binding for each variable; a substitution maps the names of type parameters to
  variables. Both are Python dictionaries: association lists in insertion order, read
  with \<^const>\<open>map_of\<close> and written with \<^const>\<open>AList.update\<close>. Every write of the matcher
  to a substitution comes right after \<^verbatim>\<open>subst.copy()\<close>, so a substitution is a value
  here; the variables it names are shared objects, kept in the state.
  The union-find of \<^verbatim>\<open>datatypes.AliasingDict\<close> is not modelled: the substitutions of
  this theory have no aliases (\<^verbatim>\<open>alias_map\<close> is \<^verbatim>\<open>None\<close>).
\<close>

record binding =
  variable :: variable
  data :: val

type_synonym view = "(variable \<times> binding) list"

type_synonym subst = "(string \<times> variable) list"

datatype exn =
    AssertionError
  | NotImplementedError
  | KeyError
  | AttributeError
  | ConversionError
  | RecursionError

datatype protocol_error =
    ProtocolMissingAttributesError val val "string set"
  | ProtocolTypeError val val string val val

datatype noniterable_str_error = NonIterableStrError val val

datatype error_details =
    ErrorDetails "protocol_error option" "noniterable_str_error option" "typed_dict_error option"
and typed_dict_error =
    TypedDictError "(string \<times> variable \<times> val \<times> (view \<times> error_details) list) list"
      "string set" "string set"

text \<open>\<^verbatim>\<open>TypedDictError bad extra missing\<close>, as the constructor of the source takes them.\<close>

section \<open>The matcher and the program's variables\<close>

text \<open>
  The fields of \<^verbatim>\<open>AbstractMatcher\<close> set by \<^verbatim>\<open>__init__\<close> (lines 87 to 95), and the part
  of \<^verbatim>\<open>ctx.program\<close> the matcher changes: the data of the bindings of every variable
  (\<^verbatim>\<open>Variable.data\<close>, in order) and the next fresh variable.
\<close>

record matcher =
  protocol_cache :: "(val \<times> val) set"
  recursive_annots_cache :: "(val \<times> val) set"
  protocol_error :: "protocol_error option"
  noniterable_str_error :: "noniterable_str_error option"
  typed_dict_error :: "typed_dict_error option"
  error_subst :: "subst option"
  bindings :: "variable \<Rightarrow> val list"
  next_variable :: nat

text \<open>\<^verbatim>\<open>AbstractMatcher.__init__\<close>, on a program with the given variables.\<close>

definition init :: "(variable \<Rightarrow> val list) \<Rightarrow> nat \<Rightarrow> matcher" where
  "init bs n = \<lparr>protocol_cache = {}, recursive_annots_cache = {}, protocol_error = None,
     noniterable_str_error = None, typed_dict_error = None, error_subst = None,
     bindings = bs, next_variable = n\<rparr>"

text \<open>
  Modelled from the spec: \<^verbatim>\<open>cfg.Variable\<close> and \<^verbatim>\<open>Program.NewVariable(values?, sources?, node?)\<close>
  are not in the sources. A variable carries bindings, each pointing to exactly one
  value; pasting a variable into another is the set union over bindings, so adding
  a value a variable already holds changes nothing.
\<close>

definition AddBinding :: "variable \<Rightarrow> val \<Rightarrow> matcher \<Rightarrow> matcher" where
  "AddBinding v d s =
     (if d \<in> set (bindings s v) then s
      else s\<lparr>bindings := (bindings s)(v := bindings s v @ [d])\<rparr>)"

fun AddBindings :: "variable \<Rightarrow> val list \<Rightarrow> matcher \<Rightarrow> matcher" where
  "AddBindings v [] s = s"
| "AddBindings v (d # ds) s = AddBindings v ds (AddBinding v d s)"

definition NewVariable :: "val list \<Rightarrow> matcher \<Rightarrow> variable \<times> matcher" where
  "NewVariable vals s =
     (next_variable s,
      AddBindings (next_variable s) vals
        (s\<lparr>bindings := (bindings s)(next_variable s := []),
           next_variable := Suc (next_variable s)\<rparr>))"

definition PasteVariable :: "variable \<Rightarrow> variable \<Rightarrow> matcher \<Rightarrow> matcher" where
  "PasteVariable target source s = AddBindings target (bindings s source) s"

definition AssignToNewVariable :: "variable \<Rightarrow> matcher \<Rightarrow> variable \<times> matcher" where
  "AssignToNewVariable v s = NewVariable (bindings s v) s"

section \<open>Substitution utilities\<close>

text \<open>
  \<^verbatim>\<open>_merge_substs\<close> (lines 739 to 747): the inner loop over the items of one new
  substitution, then the outer loop over the new substitutions.
\<close>

fun merge_items :: "(string \<times> variable) list \<Rightarrow> subst \<Rightarrow> matcher \<Rightarrow> subst \<times> matcher" where
  "merge_items [] subst s = (subst, s)"
| "merge_items ((n, var) # rest) subst s =
     (case map_of subst n of
        None \<Rightarrow> merge_items rest (AList.update n var subst) s
      | Some old \<Rightarrow>
          if old \<noteq> var then merge_items rest subst (PasteVariable old var s)
          else merge_items rest subst s)"

fun merge_substs :: "subst \<Rightarrow> subst list \<Rightarrow> matcher \<Rightarrow> subst \<times> matcher" where
  "merge_substs subst [] s = (subst, s)"
| "merge_substs subst (new_subst # new_substs) s =
     (case merge_items new_subst subst s of
        (subst', s') \<Rightarrow> merge_substs subst' new_substs s')"


section \<open>Collaborators\<close>

text \<open>
  The matcher consumes the rest of the analyzer through narrow interfaces: the
  attributes of abstract values that are computed in \<^verbatim>\<open>pytype.abstract\<close>, the
  annotation utilities, the control-flow graph, and the conversions. None of them is
  in the sources at hand, so they are parameters: one record, passed to every
  function of the matcher, as \<^verbatim>\<open>self.ctx\<close> and \<^verbatim>\<open>self._node\<close> are. Every theorem
  below holds for all collaborators, unless it states what it needs of them.
\<close>

type_synonym 'a result = "(exn + 'a) \<times> matcher"

type_synonym match_fn = "binding \<Rightarrow> val \<Rightarrow> subst \<Rightarrow> view \<Rightarrow> matcher \<Rightarrow> subst option result"

record signature =
  param_names :: "string list"
  annotations :: "(string \<times> val) list"
  mandatory_param_count :: nat
  maximum_param_count :: "nat option"

record services =
  is_recursive_annotation :: "val \<Rightarrow> bool"
  formal :: "val \<Rightarrow> bool"
  get_type_parameters :: "val \<Rightarrow> val list"
  sub_one_annotation :: "val \<Rightarrow> subst list \<Rightarrow> val"
  get_formal_type_parameter :: "val \<Rightarrow> string \<Rightarrow> val"
  get_instance_type_parameter :: "val \<Rightarrow> string \<Rightarrow> matcher \<Rightarrow> variable \<times> matcher"
  get_atomic_value :: "variable \<Rightarrow> matcher \<Rightarrow> exn + val"
  other_cls :: "val \<Rightarrow> val"
  object_instance :: val
  object_type :: val
  instantiate :: "val \<Rightarrow> container option \<Rightarrow> matcher \<Rightarrow> variable \<times> matcher"
  get_maybe_abstract_instance :: "val \<Rightarrow> val"
  get_type_key :: "val \<Rightarrow> string"
  mro :: "val \<Rightarrow> val list"
  COMPATIBLE_BUILTINS :: "(string \<times> string) list"
  is_protocol :: "val \<Rightarrow> bool"
  has_protocol_base :: "val \<Rightarrow> bool"
  protocol_attributes :: "val \<Rightarrow> string list"
  is_dynamic :: "val \<Rightarrow> bool"
  members :: "val \<Rightarrow> string set"
  get_own_attributes :: "val \<Rightarrow> string set"
  literal_matches :: "val \<Rightarrow> val \<Rightarrow> bool"
  is_NativeFunction :: "val \<Rightarrow> bool"
  get_signatures :: "val \<Rightarrow> signature list"
  get_views :: "variable list \<Rightarrow> matcher \<Rightarrow> view list"
  skips :: "view \<Rightarrow> view \<Rightarrow> bool"
  HasCombination :: "binding list \<Rightarrow> bool"
  Filter :: "variable \<Rightarrow> matcher \<Rightarrow> bool"
  match_protocol_attribute ::
    "val \<Rightarrow> val \<Rightarrow> string \<Rightarrow> subst \<Rightarrow> view \<Rightarrow> matcher \<Rightarrow> subst option result"
  match_type_against_callback_protocol ::
    "val \<Rightarrow> val \<Rightarrow> subst \<Rightarrow> view \<Rightarrow> matcher \<Rightarrow> subst option result"
  match_heterogeneous_tuple_instance ::
    "val \<Rightarrow> val \<Rightarrow> val \<Rightarrow> subst \<Rightarrow> view \<Rightarrow> matcher \<Rightarrow> subst option result"
  match_type_against_type_rest ::
    "val \<Rightarrow> val \<Rightarrow> subst \<Rightarrow> view \<Rightarrow> matcher \<Rightarrow> subst option result"
  is_Tuple :: "val \<Rightarrow> bool"
  match_maybe_parameterized_instance ::
    "val \<Rightarrow> val \<Rightarrow> val \<Rightarrow> subst \<Rightarrow> view \<Rightarrow> matcher \<Rightarrow> subst option result"

text \<open>
  \<^verbatim>\<open>get_views\<close> gives the views of the variables that are reachable, in the order the
  generator of \<^verbatim>\<open>abstract_utils\<close> yields them; \<^verbatim>\<open>skips v w\<close> says that the generator,
  told to skip after \<^verbatim>\<open>v\<close>, leaves \<^verbatim>\<open>w\<close> out. \<^verbatim>\<open>match_type_against_type_rest\<close> stands for
  the cases of \<^verbatim>\<open>_match_type_against_type\<close> on the variants gathered in
  \<^const>\<open>OtherValue\<close> (field instances, super proxies, class and static methods).
\<close>

text \<open>\<^verbatim>\<open>value.cls\<close>: stored in an instance; a collaborator's for the other variants.\<close>

fun cls :: "services \<Rightarrow> val \<Rightarrow> val" where
  "cls ctx (Instance c ps) = c"
| "cls ctx (Dict c kv) = c"
| "cls ctx v = other_cls ctx v"

section \<open>The protocol cache and the error details\<close>

text \<open>
  \<^verbatim>\<open>_track_partially_matched_protocols\<close> (lines 97 to 111): the generator restores the
  cache after the \<^verbatim>\<open>yield\<close>; it has no \<^verbatim>\<open>try\<close>, so an exception in the body leaves the
  cache as the body left it.
\<close>

definition track_partially_matched_protocols ::
    "(matcher \<Rightarrow> 'a result) \<Rightarrow> matcher \<Rightarrow> 'a result" where
  "track_partially_matched_protocols body s =
     (case body s of
        (Inl e, s') \<Rightarrow> (Inl e, s')
      | (Inr r, s') \<Rightarrow> (Inr r, s'\<lparr>protocol_cache := protocol_cache s\<rparr>))"

definition error_details_of :: "matcher \<Rightarrow> error_details" where
  "error_details_of s =
     ErrorDetails (protocol_error s) (noniterable_str_error s) (typed_dict_error s)"

section \<open>Filling substitutions\<close>

text \<open>\<^verbatim>\<open>_subst_with_type_parameters_from\<close> (lines 1268 to 1273).\<close>

fun fill_type_parameters :: "val list \<Rightarrow> subst \<Rightarrow> matcher \<Rightarrow> subst \<times> matcher" where
  "fill_type_parameters [] subst s = (subst, s)"
| "fill_type_parameters (p # ps) subst s =
     (if map_of subst (name p) = None then
        (case NewVariable [Empty] s of
           (v, s') \<Rightarrow> fill_type_parameters ps (AList.update (name p) v subst) s')
      else fill_type_parameters ps subst s)"

definition subst_with_type_parameters_from ::
    "services \<Rightarrow> subst \<Rightarrow> val \<Rightarrow> matcher \<Rightarrow> subst \<times> matcher" where
  "subst_with_type_parameters_from ctx subst typ s =
     fill_type_parameters (get_type_parameters ctx typ) subst s"

text \<open>
  \<^verbatim>\<open>_mutate_type_parameters\<close> (lines 651 to 653): the dictionary comprehension makes one
  variable for each parameter, a later one replacing an earlier one of the same name.
\<close>

fun to_variables :: "val list \<Rightarrow> val \<Rightarrow> subst \<Rightarrow> matcher \<Rightarrow> subst \<times> matcher" where
  "to_variables [] v acc s = (acc, s)"
| "to_variables (p # ps) v acc s =
     (case NewVariable [v] s of
        (var, s') \<Rightarrow> to_variables ps v (AList.update (full_name p) var acc) s')"

definition mutate_type_parameters ::
    "val list \<Rightarrow> val \<Rightarrow> subst \<Rightarrow> matcher \<Rightarrow> subst \<times> matcher" where
  "mutate_type_parameters params v subst s =
     (case to_variables params v [] s of
        (new_subst, s') \<Rightarrow> merge_substs subst [new_subst] s')"

section \<open>Matching a variable\<close>

text \<open>
  The functions of the matcher call each other in a cycle that goes through
  \<^verbatim>\<open>_match_value_against_type\<close>. Each function takes that method as its first argument
  \<^verbatim>\<open>rec\<close>; the cycle is closed at the end of the theory, by recursion on the depth of
  calls that Python allows.
\<close>

text \<open>\<^verbatim>\<open>match_var_against_type\<close> (lines 245 to 264); the loop of lines 256 to 262 first.\<close>

fun fill_nothing :: "val list \<Rightarrow> subst \<Rightarrow> matcher \<Rightarrow> subst \<times> matcher" where
  "fill_nothing [] subst s = (subst, s)"
| "fill_nothing (right # rest) subst s =
     (if is_TypeParameter right \<and> map_of subst (full_name right) = None then
        (case NewVariable [] s of
           (v, s') \<Rightarrow> fill_nothing rest (AList.update (full_name right) v subst) s')
      else fill_nothing rest subst s)"

definition right_side_options :: "services \<Rightarrow> val \<Rightarrow> val list" where
  "right_side_options ctx other_type =
     (let other = (if is_TupleClass other_type
                   then get_formal_type_parameter ctx other_type abstract_utils_T
                   else other_type)
      in if is_Union other then options other else [other])"

definition match_var_against_type ::
    "match_fn \<Rightarrow> services \<Rightarrow> variable \<Rightarrow> val \<Rightarrow> subst \<Rightarrow> view \<Rightarrow> matcher \<Rightarrow> subst option result" where
  "match_var_against_type rec ctx var other_type subst view s =
     (if bindings s var \<noteq> [] then
        (case map_of view var of
           None \<Rightarrow> (Inl KeyError, s)
         | Some b \<Rightarrow> rec b other_type subst view s)
      else
        (case fill_nothing (right_side_options ctx other_type) subst s of
           (subst', s') \<Rightarrow> (Inr (Some subst'), s')))"

text \<open>\<^verbatim>\<open>_match_all_bindings\<close> (lines 755 to 774) and \<^verbatim>\<open>_instantiate_and_match\<close> (749 to 753).\<close>

definition update_view :: "view \<Rightarrow> view \<Rightarrow> view" where
  "update_view new_view view = fold (\<lambda>(k, b) acc. AList.update k b acc) view new_view"

fun match_views ::
    "match_fn \<Rightarrow> services \<Rightarrow> variable \<Rightarrow> val \<Rightarrow> subst \<Rightarrow> view \<Rightarrow> view list \<Rightarrow> subst list
       \<Rightarrow> matcher \<Rightarrow> subst list result" where
  "match_views rec ctx var other_type subst view [] new_substs s = (Inr new_substs, s)"
| "match_views rec ctx var other_type subst view (new_view # rest) new_substs s =
     (case match_var_against_type rec ctx var other_type subst (update_view new_view view) s of
        (Inl e, s') \<Rightarrow> (Inl e, s')
      | (Inr None, s') \<Rightarrow> match_views rec ctx var other_type subst view rest new_substs s'
      | (Inr (Some new_subst), s') \<Rightarrow>
          match_views rec ctx var other_type subst view rest (new_substs @ [new_subst]) s')"

definition match_all_bindings ::
    "match_fn \<Rightarrow> services \<Rightarrow> variable \<Rightarrow> val \<Rightarrow> subst \<Rightarrow> view \<Rightarrow> matcher \<Rightarrow> subst option result" where
  "match_all_bindings rec ctx var other_type subst view s =
     (case match_views rec ctx var other_type subst view (get_views ctx [var] s) [] s of
        (Inl e, s') \<Rightarrow> (Inl e, s')
      | (Inr new_substs, s') \<Rightarrow>
          if new_substs \<noteq> [] then
            (case merge_substs subst new_substs s' of (subst', s'') \<Rightarrow> (Inr (Some subst'), s''))
          else if Filter ctx var s' then (Inr None, s')
          else
            (case subst_with_type_parameters_from ctx subst other_type s' of
               (subst', s'') \<Rightarrow> (Inr (Some subst'), s'')))"

definition instantiate_and_match ::
    "match_fn \<Rightarrow> services \<Rightarrow> val \<Rightarrow> val \<Rightarrow> subst \<Rightarrow> view \<Rightarrow> container option \<Rightarrow> matcher
       \<Rightarrow> subst option result" where
  "instantiate_and_match rec ctx left other_type subst view cont s =
     (case instantiate ctx left cont s of
        (inst, s') \<Rightarrow> match_all_bindings rec ctx inst other_type subst view s')"


section \<open>Type parameters against type parameters\<close>

text \<open>\<^verbatim>\<open>_match_type_param_against_type_param\<close> (lines 266 to 290); the loop of 286 to 289 first.\<close>

fun match_constraints_against_bound ::
    "match_fn \<Rightarrow> services \<Rightarrow> val list \<Rightarrow> val \<Rightarrow> subst \<Rightarrow> view \<Rightarrow> matcher \<Rightarrow> subst option result" where
  "match_constraints_against_bound rec ctx [] b subst view s = (Inr (Some subst), s)"
| "match_constraints_against_bound rec ctx (t # ts) b subst view s =
     (case instantiate_and_match rec ctx t b subst view None s of
        (Inl e, s') \<Rightarrow> (Inl e, s')
      | (Inr None, s') \<Rightarrow> (Inr None, s')
      | (Inr (Some new_subst), s') \<Rightarrow> match_constraints_against_bound rec ctx ts b subst view s')"

definition match_type_param_against_type_param ::
    "match_fn \<Rightarrow> services \<Rightarrow> val \<Rightarrow> val \<Rightarrow> subst \<Rightarrow> view \<Rightarrow> matcher \<Rightarrow> subst option result" where
  "match_type_param_against_type_param rec ctx t1 t2 subst view s =
     (if \<not> is_TypeParameter t2 then (Inl AttributeError, s)
      else if constraints t2 \<noteq> [] then
        (if bound t2 \<noteq> None then (Inl AssertionError, s)
         else if \<not> is_TypeParameter t1 then (Inl AttributeError, s)
         else if constraints t1 = [] then (Inr None, s)
         else if set (constraints t1) - set (constraints t2) \<noteq> {} then (Inr None, s)
         else (Inr (Some subst), s))
      else
        (case bound t2 of
           None \<Rightarrow> (Inr (Some subst), s)
         | Some b2 \<Rightarrow>
             if \<not> is_TypeParameter t1 then (Inl AttributeError, s)
             else
               (case (case bound t1 of
                        None \<Rightarrow> (Inr None, s)
                      | Some b1 \<Rightarrow> instantiate_and_match rec ctx b1 b2 subst view None s) of
                  (Inl e, s') \<Rightarrow> (Inl e, s')
                | (Inr (Some new_subst), s') \<Rightarrow> (Inr (Some new_subst), s')
                | (Inr None, s') \<Rightarrow>
                    if constraints t1 = [] then (Inr None, s')
                    else match_constraints_against_bound rec ctx (constraints t1) b2 subst view s')))"

section \<open>Signatures against callables\<close>

text \<open>
  \<^verbatim>\<open>_get_param_matcher\<close> (lines 655 to 699). The counter of the type parameters of the
  callable, less those of \<^verbatim>\<open>ARGS\<close> for a \<^verbatim>\<open>CallableClass\<close>; then the closure \<^verbatim>\<open>match\<close>.
\<close>

definition callable_param_count :: "services \<Rightarrow> val \<Rightarrow> val \<Rightarrow> int" where
  "callable_param_count ctx callable_type p =
     int (count_list (get_type_parameters ctx callable_type) p)
     - (if is_CallableClass callable_type
        then int (count_list
               (get_type_parameters ctx
                  (get_formal_type_parameter ctx callable_type abstract_utils_ARGS)) p)
        else 0)"

definition param_match ::
    "services \<Rightarrow> val \<Rightarrow> val \<Rightarrow> val \<Rightarrow> subst \<Rightarrow> matcher \<Rightarrow> subst option \<times> matcher" where
  "param_match ctx callable_type left right subst s =
     (if \<not> is_TypeParameter left \<or> \<not> is_TypeParameter right \<or> constraints right \<noteq> []
         \<or> bound right \<noteq> None \<or> callable_param_count ctx callable_type right \<noteq> 1
      then (None, s)
      else
        (case NewVariable [Empty] s of
           (v, s') \<Rightarrow> (Some (AList.update (full_name right) v subst), s')))"

text \<open>\<^verbatim>\<open>_match_signature_against_callable\<close> (lines 701 to 737); the loop of 724 to 736 first.\<close>

definition annotation_or_unsolvable :: "signature \<Rightarrow> string \<Rightarrow> val" where
  "annotation_or_unsolvable sig n =
     (case map_of (annotations sig) n of None \<Rightarrow> Unsolvable | Some a \<Rightarrow> a)"

fun match_signature_params ::
    "match_fn \<Rightarrow> services \<Rightarrow> signature \<Rightarrow> val \<Rightarrow> (string \<times> nat) list \<Rightarrow> subst \<Rightarrow> view \<Rightarrow> matcher
       \<Rightarrow> subst option result" where
  "match_signature_params rec ctx sig other_type [] subst view s = (Inr (Some subst), s)"
| "match_signature_params rec ctx sig other_type ((n, i) # rest) subst view s =
     (case map_of (formal_type_parameters other_type) (Index i) of
        None \<Rightarrow> (Inl KeyError, s)
      | Some expected_arg \<Rightarrow>
          (case param_match ctx other_type (annotation_or_unsolvable sig n) expected_arg subst s of
             (Some new_subst, s') \<Rightarrow>
               match_signature_params rec ctx sig other_type rest new_subst view s'
           | (None, s') \<Rightarrow>
               (case instantiate_and_match rec ctx expected_arg (annotation_or_unsolvable sig n)
                       subst view (Some (ValueContainer other_type)) s' of
                  (Inl e, s'') \<Rightarrow> (Inl e, s'')
                | (Inr None, s'') \<Rightarrow> (Inr None, s'')
                | (Inr (Some subst'), s'') \<Rightarrow>
                    match_signature_params rec ctx sig other_type rest subst' view s'')))"

definition match_signature_against_callable ::
    "match_fn \<Rightarrow> services \<Rightarrow> signature \<Rightarrow> val \<Rightarrow> subst \<Rightarrow> view \<Rightarrow> matcher \<Rightarrow> subst option result" where
  "match_signature_against_callable rec ctx sig other_type subst view s =
     (let ret_type = annotation_or_unsolvable sig ''return'';
          other_ret_type = get_formal_type_parameter ctx other_type abstract_utils_RET
      in case (case param_match ctx other_type ret_type other_ret_type subst s of
                 (Some new_subst, s') \<Rightarrow> (Inr (Some new_subst), s')
               | (None, s') \<Rightarrow>
                   instantiate_and_match rec ctx ret_type other_ret_type subst view
                     (Some SignatureContainer) s') of
           (Inl e, s') \<Rightarrow> (Inl e, s')
         | (Inr None, s') \<Rightarrow> (Inr None, s')
         | (Inr (Some subst'), s') \<Rightarrow>
             if \<not> is_CallableClass other_type then (Inr (Some subst'), s')
             else if mandatory_param_count sig > num_args other_type then (Inr None, s')
             else if (case maximum_param_count sig of
                        None \<Rightarrow> False
                      | Some max_argcount \<Rightarrow> max_argcount < num_args other_type)
               then (Inr None, s')
             else match_signature_params rec ctx sig other_type
                    (zip (param_names sig) [0..<num_args other_type]) subst' view s')"

text \<open>\<^verbatim>\<open>_match_callable_instance\<close> (lines 962 to 991); the loop of 979 to 990 first.\<close>

fun match_callable_args ::
    "match_fn \<Rightarrow> services \<Rightarrow> val \<Rightarrow> val \<Rightarrow> nat list \<Rightarrow> subst \<Rightarrow> view \<Rightarrow> matcher
       \<Rightarrow> subst option result" where
  "match_callable_args rec ctx left other_type [] subst view s = (Inr (Some subst), s)"
| "match_callable_args rec ctx left other_type (i # rest) subst view s =
     (case map_of (formal_type_parameters left) (Index i) of
        None \<Rightarrow> (Inl KeyError, s)
      | Some left_arg \<Rightarrow>
          (case map_of (formal_type_parameters other_type) (Index i) of
             None \<Rightarrow> (Inl KeyError, s)
           | Some right_arg \<Rightarrow>
               (case param_match ctx other_type left_arg right_arg subst s of
                  (Some new_subst, s') \<Rightarrow>
                    match_callable_args rec ctx left other_type rest new_subst view s'
                | (None, s') \<Rightarrow>
                    (case instantiate_and_match rec ctx right_arg left_arg subst view
                            (Some (ValueContainer other_type)) s' of
                       (Inl e, s'') \<Rightarrow> (Inl e, s'')
                     | (Inr None, s'') \<Rightarrow> (Inr None, s'')
                     | (Inr (Some subst'), s'') \<Rightarrow>
                         match_callable_args rec ctx left other_type rest subst' view s''))))"

definition match_callable_instance ::
    "match_fn \<Rightarrow> services \<Rightarrow> val \<Rightarrow> val \<Rightarrow> val \<Rightarrow> subst \<Rightarrow> view \<Rightarrow> matcher
       \<Rightarrow> subst option result" where
  "match_callable_instance rec ctx left inst other_type subst view s =
     (if \<not> is_SimpleValue inst \<or> \<not> is_ParameterizedClass other_type then (Inr (Some subst), s)
      else
        (case get_instance_type_parameter ctx inst abstract_utils_RET s of
           (ret_var, s1) \<Rightarrow>
             (case match_var_against_type rec ctx ret_var
                     (get_formal_type_parameter ctx other_type abstract_utils_RET) subst view s1 of
                (Inl e, s') \<Rightarrow> (Inl e, s')
              | (Inr None, s') \<Rightarrow> (Inr None, s')
              | (Inr (Some subst'), s') \<Rightarrow>
                  if \<not> is_CallableClass left \<or> \<not> is_CallableClass other_type
                  then (Inr (Some subst'), s')
                  else if num_args left \<noteq> num_args other_type then (Inr None, s')
                  else match_callable_args rec ctx left other_type [0..<num_args left]
                         subst' view s')))"

section \<open>Policies on the values of a type parameter\<close>

fun is_TypeParameterInstance :: "val \<Rightarrow> bool" where
  "is_TypeParameterInstance (TypeParameterInstance p c) = True"
| "is_TypeParameterInstance _ = False"

text \<open>\<^verbatim>\<open>_discard_ambiguous_values\<close> (lines 1204 to 1216).\<close>

definition discard_ambiguous_values :: "services \<Rightarrow> val list \<Rightarrow> val list" where
  "discard_ambiguous_values ctx vals =
     filter (\<lambda>v. \<not> (is_AMBIGUOUS_OR_EMPTY v \<or> is_Union v \<or> is_TypeParameterInstance v)
                 \<and> \<not> is_AMBIGUOUS_OR_EMPTY (cls ctx v)) vals"

text \<open>\<^verbatim>\<open>_satisfies_single_type\<close> (lines 1218 to 1225).\<close>

definition satisfies_single_type :: "services \<Rightarrow> val list \<Rightarrow> bool" where
  "satisfies_single_type ctx vals =
     (let class_names = set (map (\<lambda>v. full_name (cls ctx v)) vals);
          class_names' =
            fold (\<lambda>(compat_name, n) cn. if {compat_name, n} \<subseteq> cn then cn - {compat_name} else cn)
              (COMPATIBLE_BUILTINS ctx) class_names
      in card class_names' \<le> 1)"

text \<open>\<^verbatim>\<open>_satisfies_common_superclass\<close> (lines 1227 to 1251).\<close>

definition superclasses_of :: "services \<Rightarrow> val \<Rightarrow> string set" where
  "superclasses_of ctx v =
     fold (\<lambda>(compat_name, n) sc. if compat_name \<in> sc then insert n sc else sc)
       (COMPATIBLE_BUILTINS ctx) (set (map full_name (mro ctx (cls ctx v))))"

fun common_classes :: "services \<Rightarrow> val list \<Rightarrow> string set option \<Rightarrow> string set option" where
  "common_classes ctx [] acc = acc"
| "common_classes ctx (v # vs) acc =
     common_classes ctx vs
       (case acc of
          None \<Rightarrow> Some (superclasses_of ctx v)
        | Some cc \<Rightarrow> Some (cc \<inter> superclasses_of ctx v))"

definition satisfies_common_superclass :: "services \<Rightarrow> val list \<Rightarrow> bool" where
  "satisfies_common_superclass ctx vals =
     (let object_in_values = list_ex (\<lambda>v. cls ctx v = object_type ctx) vals;
          ignored_superclasses =
            (if object_in_values then {}
             else {''builtins.object'', ''typing.Generic'', ''typing.Protocol''})
      in case common_classes ctx vals None of
           None \<Rightarrow> True
         | Some cc \<Rightarrow> \<not> cc \<subseteq> ignored_superclasses)"

section \<open>Protocols\<close>

text \<open>\<^verbatim>\<open>_get_attribute_names\<close> (lines 1013 to 1027).\<close>

definition get_attribute_names :: "services \<Rightarrow> val \<Rightarrow> string set" where
  "get_attribute_names ctx left =
     (let left_attributes =
            (if is_SimpleValue left then members ctx left else {})
            \<union> \<Union> (set (map (get_own_attributes ctx) (filter is_Class (mro ctx (cls ctx left)))))
      in if ''__getitem__'' \<in> left_attributes \<and> ''__iter__'' \<notin> left_attributes
         then insert ''__iter__'' left_attributes
         else left_attributes)"

text \<open>\<^verbatim>\<open>_match_against_protocol\<close> (lines 1029 to 1062); the loop of 1055 to 1061 first.\<close>

fun match_protocol_attributes ::
    "services \<Rightarrow> val \<Rightarrow> val \<Rightarrow> string list \<Rightarrow> subst \<Rightarrow> view \<Rightarrow> subst list \<Rightarrow> matcher
       \<Rightarrow> subst list option result" where
  "match_protocol_attributes ctx left other_type [] subst view new_substs s =
     (Inr (Some new_substs), s)"
| "match_protocol_attributes ctx left other_type (attribute # rest) subst view new_substs s =
     (case match_protocol_attribute ctx left other_type attribute subst view s of
        (Inl e, s') \<Rightarrow> (Inl e, s')
      | (Inr None, s') \<Rightarrow> (Inr None, s')
      | (Inr (Some new_subst), s') \<Rightarrow>
          match_protocol_attributes ctx left other_type rest subst view
            (new_substs @ [new_subst]) s')"

definition match_against_protocol ::
    "services \<Rightarrow> val \<Rightarrow> val \<Rightarrow> subst \<Rightarrow> view \<Rightarrow> matcher \<Rightarrow> subst option result" where
  "match_against_protocol ctx left other_type subst view s =
     (if is_AMBIGUOUS_OR_EMPTY (cls ctx left) then (Inr (Some subst), s)
      else if is_dynamic ctx (cls ctx left) then
        (case subst_with_type_parameters_from ctx subst other_type s of
           (subst', s') \<Rightarrow> (Inr (Some subst'), s'))
      else
        (let missing = set (protocol_attributes ctx other_type) - get_attribute_names ctx left
         in if missing \<noteq> {} then
              (Inr None,
               s\<lparr>protocol_error :=
                    Some (ProtocolMissingAttributesError (cls ctx left) other_type missing)\<rparr>)
            else if (cls ctx left, other_type) \<in> protocol_cache s then (Inr (Some subst), s)
            else
              (case match_protocol_attributes ctx left other_type
                      (protocol_attributes ctx other_type) subst view []
                      (s\<lparr>protocol_cache := insert (cls ctx left, other_type) (protocol_cache s)\<rparr>) of
                 (Inl e, s') \<Rightarrow> (Inl e, s')
               | (Inr None, s') \<Rightarrow> (Inr None, s')
               | (Inr (Some new_substs), s') \<Rightarrow>
                   (case merge_substs subst new_substs s' of
                      (subst', s'') \<Rightarrow> (Inr (Some subst'), s'')))))"


section \<open>The entry point bad\_matches\<close>

text \<open>
  \<^verbatim>\<open>bad_matches\<close> (lines 171 to 203). The loop sends \<^verbatim>\<open>skip_future\<close> to the generator of
  views: \<^verbatim>\<open>seen\<close> holds the views that matched, after which the generator was told to
  skip.
  Modelled from the spec: the view iterator is not in the sources. It supports a skip
  hint: after a successful match, skip sibling views with the same outcome; after a
  failed match, enumerate siblings exhaustively.
\<close>

fun bad_matches_loop ::
    "match_fn \<Rightarrow> services \<Rightarrow> variable \<Rightarrow> val \<Rightarrow> view list \<Rightarrow> view list
       \<Rightarrow> (view \<times> error_details) list \<Rightarrow> matcher \<Rightarrow> (view \<times> error_details) list result" where
  "bad_matches_loop rec ctx var other_type [] seen bad s = (Inr bad, s)"
| "bad_matches_loop rec ctx var other_type (view # rest) seen bad s =
     (if list_ex (\<lambda>v. skips ctx v view) seen
      then bad_matches_loop rec ctx var other_type rest seen bad s
      else
        (case match_var_against_type rec ctx var other_type [] view
                (s\<lparr>protocol_error := None, noniterable_str_error := None\<rparr>) of
           (Inl e, s') \<Rightarrow> (Inl e, s')
         | (Inr None, s') \<Rightarrow>
             bad_matches_loop rec ctx var other_type rest seen
               (if HasCombination ctx (map snd view) then bad @ [(view, error_details_of s')]
                else bad) s'
         | (Inr (Some subst'), s') \<Rightarrow>
             bad_matches_loop rec ctx var other_type rest (seen @ [view]) bad s'))"

definition bad_matches ::
    "match_fn \<Rightarrow> services \<Rightarrow> variable \<Rightarrow> val \<Rightarrow> matcher \<Rightarrow> (view \<times> error_details) list result" where
  "bad_matches rec ctx var other_type s =
     (if bindings s var = [Unsolvable] \<or> other_type = Unsolvable then (Inr [], s)
      else bad_matches_loop rec ctx var other_type (get_views ctx [var] s) [] [] s)"

section \<open>Typed dictionaries\<close>

text \<open>
  Modelled from the spec: \<^verbatim>\<open>props.check_keys\<close> of the typed-dict overlay is not in
  the sources. It computes the missing required keys and the extra (not declared) keys.
\<close>

definition check_keys ::
    "(string \<times> variable) list \<Rightarrow> string list \<Rightarrow> string list \<Rightarrow> string set \<times> string set" where
  "check_keys flds required keys = (set required - set keys, set keys - fst ` set flds)"

text \<open>\<^verbatim>\<open>_match_dict_against_typed_dict\<close> (lines 993 to 1011); the loop of 1001 to 1007 first.\<close>

fun typed_dict_bad ::
    "match_fn \<Rightarrow> services \<Rightarrow> (string \<times> variable) list \<Rightarrow> (string \<times> variable) list
       \<Rightarrow> (string \<times> variable \<times> val \<times> (view \<times> error_details) list) list \<Rightarrow> matcher
       \<Rightarrow> (string \<times> variable \<times> val \<times> (view \<times> error_details) list) list result" where
  "typed_dict_bad rec ctx flds [] bad s = (Inr bad, s)"
| "typed_dict_bad rec ctx flds ((k, v) # rest) bad s =
     (case map_of flds k of
        None \<Rightarrow> typed_dict_bad rec ctx flds rest bad s
      | Some fld \<Rightarrow>
          (case get_atomic_value ctx fld s of
             Inl e \<Rightarrow> (Inl e, s)
           | Inr typ \<Rightarrow>
               (case bad_matches rec ctx v typ s of
                  (Inl e, s') \<Rightarrow> (Inl e, s')
                | (Inr b, s') \<Rightarrow>
                    typed_dict_bad rec ctx flds rest
                      (if b \<noteq> [] then bad @ [(k, v, typ, b)] else bad) s')))"

definition match_dict_against_typed_dict ::
    "match_fn \<Rightarrow> services \<Rightarrow> val \<Rightarrow> val \<Rightarrow> matcher \<Rightarrow> bool result" where
  "match_dict_against_typed_dict rec ctx left other_type s =
     (case other_type of
        TypedDictClass n flds required \<Rightarrow>
          (case left of
             Dict c pyval \<Rightarrow>
               (case check_keys flds required (map fst pyval) of
                  (missing, extra) \<Rightarrow>
                    (case typed_dict_bad rec ctx flds pyval [] (s\<lparr>typed_dict_error := None\<rparr>) of
                       (Inl e, s') \<Rightarrow> (Inl e, s')
                     | (Inr bad, s') \<Rightarrow>
                         if missing \<noteq> {} \<or> extra \<noteq> {} \<or> bad \<noteq> []
                         then (Inr False,
                               s'\<lparr>typed_dict_error := Some (TypedDictError bad extra missing)\<rparr>)
                         else (Inr True, s')))
           | _ \<Rightarrow> (Inr False, s\<lparr>typed_dict_error := None\<rparr>))
      | _ \<Rightarrow> (Inl AssertionError, s))"

section \<open>Instances against classes\<close>

text \<open>\<^verbatim>\<open>_satisfies_noniterable_str\<close> (lines 1253 to 1266).\<close>

definition conflicting_iter_types :: "string list" where
  "conflicting_iter_types =
     [''typing.Iterable'', ''typing.Sequence'', ''typing.Collection'', ''typing.Container'']"

definition str_types :: "string list" where
  "str_types = [''builtins.str'', ''builtins.unicode'']"

definition satisfies_noniterable_str :: "services \<Rightarrow> val \<Rightarrow> val \<Rightarrow> bool" where
  "satisfies_noniterable_str ctx left other_type =
     (if full_name other_type \<notin> set conflicting_iter_types \<or> full_name left \<notin> set str_types
      then True
      else if is_ParameterizedClass other_type
      then full_name (get_formal_type_parameter ctx other_type ''_T'') \<notin> set str_types
      else True)"

text \<open>\<^verbatim>\<open>match_from_mro\<close> (lines 205 to 243).\<close>

fun match_from_mro_loop :: "services \<Rightarrow> val list \<Rightarrow> val \<Rightarrow> bool \<Rightarrow> val option" where
  "match_from_mro_loop ctx [] other_type allow_compat_builtins = None"
| "match_from_mro_loop ctx (base # rest) other_type allow_compat_builtins =
     (let b = (if is_ParameterizedClass base then base_cls base else base)
      in if is_Class b then
           (if full_name other_type = full_name b
               \<or> (is_ParameterizedClass other_type \<and> base_cls other_type = b)
               \<or> (allow_compat_builtins
                   \<and> (full_name b, full_name other_type) \<in> set (COMPATIBLE_BUILTINS ctx))
            then Some base
            else match_from_mro_loop ctx rest other_type allow_compat_builtins)
         else if is_AMBIGUOUS b then Some b
         else match_from_mro_loop ctx rest other_type allow_compat_builtins)"

definition match_from_mro :: "services \<Rightarrow> val \<Rightarrow> val \<Rightarrow> bool \<Rightarrow> val option" where
  "match_from_mro ctx left other_type allow_compat_builtins =
     match_from_mro_loop ctx (mro ctx left) other_type allow_compat_builtins"

text \<open>
  \<^verbatim>\<open>_match_instance\<close> (lines 832 to 858). A concrete tuple instance is among the
  values of the tuple matcher, a collaborator here, with the parameterized-instance
  matcher (\<^verbatim>\<open>_match_maybe_parameterized_instance\<close>).
\<close>

definition match_instance ::
    "match_fn \<Rightarrow> services \<Rightarrow> val \<Rightarrow> val \<Rightarrow> val \<Rightarrow> subst \<Rightarrow> view \<Rightarrow> matcher
       \<Rightarrow> subst option result" where
  "match_instance rec ctx left inst other_type subst view s =
     (if is_TupleClass left \<or> is_Tuple ctx inst \<or> is_TupleClass other_type
      then match_heterogeneous_tuple_instance ctx left inst other_type subst view s
      else if is_CallableClass left \<or> is_CallableClass other_type
      then match_callable_instance rec ctx left inst other_type subst view s
      else match_maybe_parameterized_instance ctx left inst other_type subst view s)"


text \<open>\<^verbatim>\<open>_match_instance_against_type\<close> (lines 776 to 830).\<close>

definition match_instance_against_type ::
    "match_fn \<Rightarrow> services \<Rightarrow> val \<Rightarrow> val \<Rightarrow> subst \<Rightarrow> view \<Rightarrow> matcher \<Rightarrow> subst option result" where
  "match_instance_against_type rec ctx left other_type subst view s =
     (if is_LiteralClass other_type then
        (Inr (if literal_matches ctx left other_type then Some subst else None), s)
      else if is_TypedDictClass other_type then
        (case match_dict_against_typed_dict rec ctx left other_type s of
           (Inl e, s') \<Rightarrow> (Inl e, s')
         | (Inr ok, s') \<Rightarrow> (Inr (if ok then Some subst else None), s'))
      else if is_Class other_type then
        (if \<not> satisfies_noniterable_str ctx (cls ctx left) other_type then
           (Inr None,
            s\<lparr>noniterable_str_error := Some (NonIterableStrError (cls ctx left) other_type)\<rparr>)
         else
           (case match_from_mro ctx (cls ctx left) other_type True of
              None \<Rightarrow>
                if is_protocol ctx other_type then
                  track_partially_matched_protocols
                    (match_against_protocol ctx left other_type subst view) s
                else if has_protocol_base ctx other_type then (Inr (Some subst), s)
                else (Inr None, s)
            | Some base \<Rightarrow>
                if is_AMBIGUOUS_OR_EMPTY base
                then match_maybe_parameterized_instance ctx base left other_type subst view s
                else match_instance rec ctx base left other_type subst view s))
      else if other_type = Empty then (Inr None, s)
      else (Inl NotImplementedError, s))"

section \<open>Types against types\<close>

text \<open>\<^verbatim>\<open>_is_callback_protocol\<close> (lines 30 to 32).\<close>

definition is_callback_protocol :: "services \<Rightarrow> val \<Rightarrow> bool" where
  "is_callback_protocol ctx typ =
     (is_Class typ \<and> is_protocol ctx typ \<and> ''__call__'' \<in> set (protocol_attributes ctx typ))"

text \<open>The branches of \<^verbatim>\<open>_match_type_against_type\<close> (lines 506 to 624), one by one.\<close>

text \<open>A class on the left (lines 527 to 545).\<close>

definition match_class_against_type ::
    "match_fn \<Rightarrow> services \<Rightarrow> val \<Rightarrow> val \<Rightarrow> subst \<Rightarrow> view \<Rightarrow> matcher \<Rightarrow> subst option result" where
  "match_class_against_type rec ctx left other_type subst view s =
     (if full_name other_type = ''builtins.type'' \<and> is_ParameterizedClass other_type then
        instantiate_and_match rec ctx left
          (get_formal_type_parameter ctx other_type abstract_utils_T) subst view None s
      else if full_name other_type = ''typing.Callable'' \<and> is_ParameterizedClass other_type then
        instantiate_and_match rec ctx left
          (get_formal_type_parameter ctx other_type abstract_utils_RET) subst view None s
      else if full_name other_type \<in>
                set [''builtins.type'', ''builtins.object'', ''typing.Callable'', ''typing.Hashable'']
      then (Inr (Some subst), s)
      else if is_callback_protocol ctx other_type then
        match_type_against_callback_protocol ctx left other_type subst view s
      else match_instance_against_type rec ctx left other_type subst view s)"

text \<open>A module on the left (lines 546 to 556).\<close>

definition match_module_against_type ::
    "match_fn \<Rightarrow> services \<Rightarrow> val \<Rightarrow> val \<Rightarrow> subst \<Rightarrow> view \<Rightarrow> matcher \<Rightarrow> subst option result" where
  "match_module_against_type rec ctx left other_type subst view s =
     (if full_name other_type \<in>
           set [''builtins.module'', ''builtins.object'', ''types.ModuleType'', ''typing.Hashable'']
      then (Inr (Some subst), s)
      else if is_Class other_type \<and> has_protocol_base ctx other_type then
        match_instance_against_type rec ctx left other_type subst view s
      else (Inr None, s))"

text \<open>
  A function on the left (lines 557 to 588). The last case matches a new instance of
  the function's class: \<^verbatim>\<open>_match_type_against_type\<close> sends an \<^verbatim>\<open>Instance\<close> to
  \<^verbatim>\<open>_match_instance_against_type\<close> (lines 591 and 592).
\<close>

fun match_signatures ::
    "match_fn \<Rightarrow> services \<Rightarrow> signature list \<Rightarrow> val \<Rightarrow> subst \<Rightarrow> view \<Rightarrow> subst list \<Rightarrow> matcher
       \<Rightarrow> subst list result" where
  "match_signatures rec ctx [] other_type subst view new_substs s = (Inr new_substs, s)"
| "match_signatures rec ctx (sig # sigs) other_type subst view new_substs s =
     (case match_signature_against_callable rec ctx sig other_type subst view s of
        (Inl e, s') \<Rightarrow> (Inl e, s')
      | (Inr None, s') \<Rightarrow> match_signatures rec ctx sigs other_type subst view new_substs s'
      | (Inr (Some new_subst), s') \<Rightarrow>
          match_signatures rec ctx sigs other_type subst view (new_substs @ [new_subst]) s')"

definition match_function_against_type ::
    "match_fn \<Rightarrow> services \<Rightarrow> val \<Rightarrow> val \<Rightarrow> subst \<Rightarrow> view \<Rightarrow> matcher \<Rightarrow> subst option result" where
  "match_function_against_type rec ctx left other_type subst view s =
     (if full_name other_type = ''builtins.object'' then (Inr (Some subst), s)
      else if full_name other_type = ''typing.Callable'' then
        (if \<not> is_ParameterizedClass other_type then (Inr (Some subst), s)
         else if is_NativeFunction ctx left then (Inr (Some subst), s)
         else
           (case match_signatures rec ctx (get_signatures ctx left) other_type subst view [] s of
              (Inl e, s') \<Rightarrow> (Inl e, s')
            | (Inr new_substs, s') \<Rightarrow>
                if new_substs \<noteq> [] then
                  (case merge_substs subst new_substs s' of
                     (subst', s'') \<Rightarrow> (Inr (Some subst'), s''))
                else (Inr None, s')))
      else if is_callback_protocol ctx other_type then
        match_type_against_callback_protocol ctx left other_type subst view s
      else match_instance_against_type rec ctx (Instance (cls ctx left) []) other_type subst view s)"

text \<open>A type parameter instance on the left (lines 613 to 621).\<close>

definition match_type_parameter_instance_against_type ::
    "match_fn \<Rightarrow> services \<Rightarrow> val \<Rightarrow> val \<Rightarrow> container \<Rightarrow> val \<Rightarrow> subst \<Rightarrow> view \<Rightarrow> matcher
       \<Rightarrow> subst option result" where
  "match_type_parameter_instance_against_type rec ctx left p c other_type subst view s =
     (case c of
        ValueContainer inst \<Rightarrow>
          (case get_instance_type_parameter ctx inst (name p) s of
             (param, s') \<Rightarrow>
               if bindings s' param \<noteq> [] \<and> left \<notin> set (bindings s' param)
               then match_all_bindings rec ctx param other_type subst view s'
               else instantiate_and_match rec ctx p other_type subst view None s')
      | _ \<Rightarrow> instantiate_and_match rec ctx p other_type subst view None s)"

fun is_OtherValue :: "val \<Rightarrow> bool" where
  "is_OtherValue (OtherValue n) = True"
| "is_OtherValue _ = False"

text \<open>
  \<^verbatim>\<open>_match_type_against_type\<close> itself: it calls itself on the options of a union on the
  left, and returns the first match (lines 608 to 612).
\<close>

fun match_type_against_type ::
    "match_fn \<Rightarrow> services \<Rightarrow> val \<Rightarrow> val \<Rightarrow> subst \<Rightarrow> view \<Rightarrow> matcher \<Rightarrow> subst option result"
and match_union_left ::
    "match_fn \<Rightarrow> services \<Rightarrow> val list \<Rightarrow> val \<Rightarrow> subst \<Rightarrow> view \<Rightarrow> matcher \<Rightarrow> subst option result"
where
  "match_type_against_type rec ctx left other_type subst view s =
     (if left = Empty \<and> other_type = Empty then (Inr (Some subst), s)
      else if is_AMBIGUOUS_OR_EMPTY left then
        (case mutate_type_parameters (get_type_parameters ctx other_type)
                (if left = Empty then Empty else Unsolvable) subst s of
           (subst', s') \<Rightarrow> (Inr (Some subst'), s'))
      else if is_Class left then match_class_against_type rec ctx left other_type subst view s
      else if is_Module left then match_module_against_type rec ctx left other_type subst view s
      else if is_Function left then match_function_against_type rec ctx left other_type subst view s
      else if is_OtherValue left then match_type_against_type_rest ctx left other_type subst view s
      else if is_SimpleValue left then
        match_instance_against_type rec ctx left other_type subst view s
      else
        (case left of
           Union os \<Rightarrow> match_union_left rec ctx os other_type subst view s
         | TypeParameterInstance p c \<Rightarrow>
             match_type_parameter_instance_against_type rec ctx left p c other_type subst view s
         | _ \<Rightarrow> (Inl NotImplementedError, s)))"
| "match_union_left rec ctx [] other_type subst view s = (Inr None, s)"
| "match_union_left rec ctx (opt # opts) other_type subst view s =
     (case match_type_against_type rec ctx opt other_type subst view s of
        (Inl e, s') \<Rightarrow> (Inl e, s')
      | (Inr (Some new_subst), s') \<Rightarrow> (Inr (Some new_subst), s')
      | (Inr None, s') \<Rightarrow> match_union_left rec ctx opts other_type subst view s')"


section \<open>Values against types\<close>

text \<open>\<^verbatim>\<open>_unwrap_final\<close> (lines 292 to 303).\<close>

definition unwrap_final :: "services \<Rightarrow> val \<Rightarrow> matcher \<Rightarrow> val result" where
  "unwrap_final ctx v s =
     (case v of
        FinalAnnotation annotation \<Rightarrow> (Inr annotation, s)
      | _ \<Rightarrow>
          if is_Instance v \<and> full_name (cls ctx v) = ''typing.Final'' then
            (case get_instance_type_parameter ctx v abstract_utils_T s of
               (param, s') \<Rightarrow> (get_atomic_value ctx param s', s'))
          else (Inr v, s))"

text \<open>
  A formal value on the left (lines 332 to 342): its type parameters are replaced by
  one variable that holds an instance of \<^verbatim>\<open>object\<close>.
\<close>

definition rewrite_formal :: "services \<Rightarrow> val \<Rightarrow> matcher \<Rightarrow> val \<times> matcher" where
  "rewrite_formal ctx left s =
     (if formal ctx left then
        (case NewVariable [object_instance ctx] s of
           (obj_var, s') \<Rightarrow>
             (sub_one_annotation ctx left
                [fold (\<lambda>p acc. AList.update (full_name p) obj_var acc)
                   (get_type_parameters ctx left) []],
              s'))
      else (left, s))"

text \<open>
  A type parameter instance of a callable on the left (lines 344 to 375). The error
  substitution instantiates \<^verbatim>\<open>left.param\<close> twice, as the source does.
\<close>

definition match_callable_type_parameter_instance ::
    "match_fn \<Rightarrow> services \<Rightarrow> val \<Rightarrow> val \<Rightarrow> subst \<Rightarrow> view \<Rightarrow> matcher \<Rightarrow> subst option result" where
  "match_callable_type_parameter_instance rec ctx left other_type subst view s =
     (case left of
        TypeParameterInstance p c \<Rightarrow>
          if is_TypeParameter other_type then
            (case match_type_param_against_type_param rec ctx p other_type subst view s of
               (Inl e, s') \<Rightarrow> (Inl e, s')
             | (Inr (Some new_subst), s') \<Rightarrow>
                 (case NewVariable [] s' of
                    (v, s'') \<Rightarrow>
                      (Inr (Some (AList.update (full_name other_type) v new_subst)), s''))
             | (Inr None, s') \<Rightarrow>
                 (case instantiate ctx p (Some DUMMY_CONTAINER) s' of
                    (left_dummy, s1) \<Rightarrow>
                      (case instantiate ctx p (Some DUMMY_CONTAINER) s1 of
                         (right_dummy, s2) \<Rightarrow>
                           (case merge_substs subst
                                   [AList.update (name other_type) right_dummy
                                      [(name p, left_dummy)]] s2 of
                              (es, s3) \<Rightarrow> (Inr None, s3\<lparr>error_subst := Some es\<rparr>)))))
          else if instance_is_CallableClass left then
            instantiate_and_match rec ctx other_type p subst view None s
          else instantiate_and_match rec ctx p other_type subst view None s
      | _ \<Rightarrow> (Inl AttributeError, s))"

text \<open>
  A type parameter on the right (lines 376 to 451), in the order of the source: the
  constraints, the bound, the new variable, the policy, the result.
\<close>

fun match_constraints ::
    "match_fn \<Rightarrow> binding \<Rightarrow> val list \<Rightarrow> subst \<Rightarrow> view \<Rightarrow> matcher \<Rightarrow> bool result" where
  "match_constraints rec value [] subst view s = (Inr False, s)"
| "match_constraints rec value (c # cs) subst view s =
     (case rec value c subst view s of
        (Inl e, s') \<Rightarrow> (Inl e, s')
      | (Inr None, s') \<Rightarrow> match_constraints rec value cs subst view s'
      | (Inr (Some new_subst), s') \<Rightarrow> (Inr True, s'))"

definition match_bound ::
    "match_fn \<Rightarrow> services \<Rightarrow> binding \<Rightarrow> val \<Rightarrow> subst \<Rightarrow> view \<Rightarrow> matcher \<Rightarrow> bool result" where
  "match_bound rec ctx value other_type subst view s =
     (case bound other_type of
        None \<Rightarrow> (Inr True, s)
      | Some b \<Rightarrow>
          (case rec value b subst view s of
             (Inl e, s') \<Rightarrow> (Inl e, s')
           | (Inr (Some new_subst), s') \<Rightarrow> (Inr True, s')
           | (Inr None, s') \<Rightarrow>
               (case instantiate ctx b (Some DUMMY_CONTAINER) s' of
                  (v, s1) \<Rightarrow>
                    (case merge_substs subst [[(full_name other_type, v)]] s1 of
                       (es, s2) \<Rightarrow> (Inr False, s2\<lparr>error_subst := Some es\<rparr>)))))"

definition new_type_parameter_variable ::
    "services \<Rightarrow> binding \<Rightarrow> val \<Rightarrow> val \<Rightarrow> subst \<Rightarrow> matcher \<Rightarrow> variable \<times> matcher" where
  "new_type_parameter_variable ctx value left other_type subst s =
     (case (case map_of subst (full_name other_type) of
              Some old \<Rightarrow>
                (case AssignToNewVariable old s of (new_var, s') \<Rightarrow> (new_var, AddBinding new_var left s'))
            | None \<Rightarrow>
                (case NewVariable [] s of
                   (new_var, s') \<Rightarrow>
                     (new_var, AddBinding new_var (get_maybe_abstract_instance ctx left) s'))) of
        (new_var, s') \<Rightarrow>
          (new_var,
           AddBindings new_var
             (filter (\<lambda>d. d \<noteq> data value \<and> get_type_key ctx d = get_type_key ctx left)
                (bindings s' (variable value))) s'))"

fun match_old_values ::
    "services \<Rightarrow> val \<Rightarrow> val list \<Rightarrow> subst \<Rightarrow> view \<Rightarrow> matcher \<Rightarrow> (bool \<times> subst) result" where
  "match_old_values ctx left [] subst view s = (Inr (True, subst), s)"
| "match_old_values ctx left (old_value # rest) subst view s =
     (if satisfies_common_superclass ctx [left, old_value] then (Inr (False, subst), s)
      else if is_protocol ctx (cls ctx old_value) then
        (case track_partially_matched_protocols
                (match_against_protocol ctx left (cls ctx old_value) subst view) s of
           (Inl e, s') \<Rightarrow> (Inl e, s')
         | (Inr (Some new_subst), s') \<Rightarrow> (Inr (False, new_subst), s')
         | (Inr None, s') \<Rightarrow> match_old_values ctx left rest subst view s')
      else match_old_values ctx left rest subst view s)"

text \<open>The policy gives \<^verbatim>\<open>has_error\<close>, the substitution and the variable to install.\<close>

definition type_parameter_policy ::
    "services \<Rightarrow> val \<Rightarrow> val \<Rightarrow> variable \<Rightarrow> subst \<Rightarrow> view \<Rightarrow> matcher
       \<Rightarrow> (bool \<times> subst \<times> variable) result" where
  "type_parameter_policy ctx left other_type new_var subst view s =
     (if constraints other_type \<noteq> [] then
        (let new_values = discard_ambiguous_values ctx (bindings s new_var);
             has_error = \<not> satisfies_single_type ctx new_values
         in if \<not> has_error \<and> new_values \<noteq> [] \<and> length new_values < length (bindings s new_var)
            then (case NewVariable new_values s of
                    (new_var', s') \<Rightarrow> (Inr (has_error, subst, new_var'), s'))
            else (Inr (has_error, subst, new_var), s))
      else
        (case map_of subst (full_name other_type) of
           Some old \<Rightarrow>
             (let old_values = bindings s old
              in if old_values \<noteq> [] \<and> discard_ambiguous_values ctx [left] \<noteq> []
                    \<and> length old_values = length (discard_ambiguous_values ctx old_values)
                 then
                   (case match_old_values ctx left (discard_ambiguous_values ctx old_values)
                           subst view s of
                      (Inl e, s') \<Rightarrow> (Inl e, s')
                    | (Inr (has_error, subst'), s') \<Rightarrow> (Inr (has_error, subst', new_var), s'))
                 else (Inr (False, subst, new_var), s))
         | None \<Rightarrow>
             (Inr (\<not> satisfies_common_superclass ctx
                        (discard_ambiguous_values ctx (bindings s new_var)),
                   subst, new_var), s)))"

definition match_against_type_parameter ::
    "match_fn \<Rightarrow> services \<Rightarrow> binding \<Rightarrow> val \<Rightarrow> val \<Rightarrow> subst \<Rightarrow> view \<Rightarrow> matcher
       \<Rightarrow> subst option result" where
  "match_against_type_parameter rec ctx value left other_type subst view s =
     (case match_constraints rec value (constraints other_type) subst view s of
        (Inl e, s1) \<Rightarrow> (Inl e, s1)
      | (Inr matched, s1) \<Rightarrow>
          if \<not> matched \<and> constraints other_type \<noteq> []
          then (Inr None, s1\<lparr>error_subst := Some subst\<rparr>)
          else
            (case match_bound rec ctx value other_type subst view s1 of
               (Inl e, s2) \<Rightarrow> (Inl e, s2)
             | (Inr False, s2) \<Rightarrow> (Inr None, s2)
             | (Inr True, s2) \<Rightarrow>
                 (case new_type_parameter_variable ctx value left other_type subst s2 of
                    (new_var, s3) \<Rightarrow>
                      (case type_parameter_policy ctx left other_type new_var subst view s3 of
                         (Inl e, s4) \<Rightarrow> (Inl e, s4)
                       | (Inr (has_error, subst', new_var'), s4) \<Rightarrow>
                           if has_error then (Inr None, s4\<lparr>error_subst := Some subst'\<rparr>)
                           else (Inr (Some (AList.update (full_name other_type) new_var' subst')),
                                 s4)))))"

text \<open>
  A union on the right (lines 465 to 493). \<^verbatim>\<open>sorted\<close> with the key
  \<^verbatim>\<open>(formal, index)\<close> puts the options that are not formal first and keeps the order
  otherwise. \<^verbatim>\<open>m\<close> is the recursive call on one option; \<^verbatim>\<open>amb\<close> is the test of
  \<^verbatim>\<open>value.data\<close> on line 484.
\<close>

definition sorted_options :: "services \<Rightarrow> val \<Rightarrow> val list" where
  "sorted_options ctx other_type =
     filter (\<lambda>t. \<not> formal ctx t) (options other_type) @ filter (formal ctx) (options other_type)"

fun match_union_options ::
    "(val \<Rightarrow> subst \<Rightarrow> matcher \<Rightarrow> subst option result) \<Rightarrow> services \<Rightarrow> bool \<Rightarrow> val \<Rightarrow> val list
       \<Rightarrow> subst \<Rightarrow> bool \<Rightarrow> matcher \<Rightarrow> subst option result" where
  "match_union_options m ctx amb other_type [] subst matched s =
     (Inr (if matched then Some subst else None), s)"
| "match_union_options m ctx amb other_type (t # ts) subst matched s =
     (case m t subst s of
        (Inl e, s') \<Rightarrow> (Inl e, s')
      | (Inr None, s') \<Rightarrow> match_union_options m ctx amb other_type ts subst matched s'
      | (Inr (Some new_subst), s') \<Rightarrow>
          if amb \<or> formal ctx t
          then match_union_options m ctx amb other_type ts new_subst True s'
          else
            (case subst_with_type_parameters_from ctx new_subst other_type s' of
               (subst', s'') \<Rightarrow> (Inr (Some subst'), s'')))"

definition match_against_union ::
    "match_fn \<Rightarrow> services \<Rightarrow> binding \<Rightarrow> val \<Rightarrow> subst \<Rightarrow> view \<Rightarrow> matcher \<Rightarrow> subst option result" where
  "match_against_union rec ctx value other_type subst view s =
     match_union_options (\<lambda>t subst' s'. rec value t subst' view s') ctx
       (is_AMBIGUOUS_OR_EMPTY (data value)) other_type (sorted_options ctx other_type)
       subst False s"

text \<open>The chain of cases of \<^verbatim>\<open>_match_value_against_type\<close> (lines 344 to 504).\<close>

definition match_dispatch ::
    "match_fn \<Rightarrow> services \<Rightarrow> binding \<Rightarrow> val \<Rightarrow> val \<Rightarrow> subst \<Rightarrow> view \<Rightarrow> matcher
       \<Rightarrow> subst option result" where
  "match_dispatch rec ctx value left other_type subst view s =
     (if is_callable_TypeParameterInstance left then
        match_callable_type_parameter_instance rec ctx left other_type subst view s
      else if is_TypeParameter other_type then
        match_against_type_parameter rec ctx value left other_type subst view s
      else if other_type = NoReturn \<or> left = NoReturn then
        (if left = other_type \<or> other_type = Unsolvable \<or> left = Unsolvable
         then (Inr (Some subst), s)
         else (Inr None, s))
      else if is_Class other_type then
        match_type_against_type rec ctx left other_type subst view s
      else if is_Union other_type then
        match_against_union rec ctx value other_type subst view s
      else if is_AMBIGUOUS other_type \<or> is_AMBIGUOUS left then
        (if is_ParameterizedClass other_type then (Inl AssertionError, s)
         else (Inr (Some subst), s))
      else if other_type = Empty then
        match_type_against_type rec ctx left other_type subst view s
      else (Inr None, s))"

text \<open>
  The body of \<^verbatim>\<open>_match_value_against_type\<close> (lines 305 to 504): unwrap \<^verbatim>\<open>Final\<close>, break
  the recursion on recursive annotations, rewrite a formal value, then the cases.
\<close>

definition match_value_against_type_body ::
    "match_fn \<Rightarrow> services \<Rightarrow> match_fn" where
  "match_value_against_type_body rec ctx value other_type0 subst view s =
     (case unwrap_final ctx (data value) s of
        (Inl e, s1) \<Rightarrow> (Inl e, s1)
      | (Inr left0, s1) \<Rightarrow>
          (case unwrap_final ctx other_type0 s1 of
             (Inl e, s2) \<Rightarrow> (Inl e, s2)
           | (Inr other_type, s2) \<Rightarrow>
               if is_recursive_annotation ctx other_type
                  \<and> (left0, other_type) \<in> recursive_annots_cache s2
               then (Inr (Some subst), s2)
               else
                 (case rewrite_formal ctx left0
                         (if is_recursive_annotation ctx other_type
                          then s2\<lparr>recursive_annots_cache :=
                                    insert (left0, other_type) (recursive_annots_cache s2)\<rparr>
                          else s2) of
                    (left, s3) \<Rightarrow>
                      if formal ctx left then (Inl AssertionError, s3)
                      else match_dispatch rec ctx value left other_type subst view s3)))"

text \<open>
  The cycle is closed by recursion on the depth of calls: at depth 0 Python raises
  \<^verbatim>\<open>RecursionError\<close>.
\<close>

fun match_value_against_type :: "nat \<Rightarrow> services \<Rightarrow> match_fn" where
  "match_value_against_type 0 ctx value other_type subst view s = (Inl RecursionError, s)"
| "match_value_against_type (Suc depth) ctx value other_type subst view s =
     match_value_against_type_body (match_value_against_type depth ctx) ctx
       value other_type subst view s"

section \<open>The entry point compute\_subst\<close>





section \<open>A small analyzer for the examples\<close>

text \<open>
  Concrete collaborators, for running the matcher on examples: type parameters are
  looked for in the options of a union and in the parameters of a parameterized class;
  instantiating a class makes a variable with one new instance of it; a variable has
  one view for each of its bindings; every class derives from \<^verbatim>\<open>object\<close> only.
\<close>

fun shallow_type_parameters :: "val \<Rightarrow> val list" where
  "shallow_type_parameters (TypeParameter n fn cs b) = [TypeParameter n fn cs b]"
| "shallow_type_parameters (Union os) = filter is_TypeParameter os"
| "shallow_type_parameters _ = []"

definition example_type_parameters :: "val \<Rightarrow> val list" where
  "example_type_parameters v =
     (if is_ParameterizedClass v
      then concat (map (\<lambda>(k, t). shallow_type_parameters t) (formal_type_parameters v))
      else shallow_type_parameters v)"

definition example_services :: services where
  "example_services =
     \<lparr>is_recursive_annotation = (\<lambda>t. False),
      formal = (\<lambda>v. example_type_parameters v \<noteq> []),
      get_type_parameters = example_type_parameters,
      sub_one_annotation = (\<lambda>t substs. t),
      get_formal_type_parameter =
        (\<lambda>t k. case map_of (formal_type_parameters t) (Name k) of
                  Some v \<Rightarrow> v | None \<Rightarrow> Unsolvable),
      get_instance_type_parameter =
        (\<lambda>v n s. case (case v of Instance c ps \<Rightarrow> map_of ps n | _ \<Rightarrow> None) of
                    Some var \<Rightarrow> (var, s) | None \<Rightarrow> NewVariable [] s),
      get_atomic_value =
        (\<lambda>var s. case bindings s var of [d] \<Rightarrow> Inr d | _ \<Rightarrow> Inl ConversionError),
      other_cls = (\<lambda>v. Class ''builtins.type''),
      object_instance = Instance (Class ''builtins.object'') [],
      object_type = Class ''builtins.object'',
      instantiate = (\<lambda>t c s. NewVariable [Instance t []] s),
      get_maybe_abstract_instance = (\<lambda>v. v),
      get_type_key = full_name,
      mro = (\<lambda>c. [c, Class ''builtins.object'']),
      COMPATIBLE_BUILTINS = [(''builtins.int'', ''builtins.float'')],
      is_protocol = (\<lambda>c. False),
      has_protocol_base = (\<lambda>c. False),
      protocol_attributes = (\<lambda>c. []),
      is_dynamic = (\<lambda>c. False),
      members = (\<lambda>v. {}),
      get_own_attributes = (\<lambda>c. {}),
      literal_matches = (\<lambda>left other_type. False),
      is_NativeFunction = (\<lambda>v. False),
      get_signatures = (\<lambda>v. []),
      get_views =
        (\<lambda>vars s. case vars of
                     [v] \<Rightarrow> map (\<lambda>d. [(v, \<lparr>variable = v, data = d\<rparr>)]) (bindings s v)
                   | _ \<Rightarrow> []),
      skips = (\<lambda>v w. False),
      HasCombination = (\<lambda>bs. True),
      Filter = (\<lambda>v s. bindings s v \<noteq> []),
      match_protocol_attribute = (\<lambda>left other_type attribute subst view s. (Inr (Some subst), s)),
      match_type_against_callback_protocol = (\<lambda>left other_type subst view s. (Inr None, s)),
      match_heterogeneous_tuple_instance = (\<lambda>left inst other_type subst view s. (Inr None, s)),
      match_type_against_type_rest =
        (\<lambda>left other_type subst view s. (Inl NotImplementedError, s)),
      is_Tuple = (\<lambda>v. False),
      match_maybe_parameterized_instance =
        (\<lambda>left inst other_type subst view s. (Inr (Some subst), s))\<rparr>"

text \<open>A program with no variable bound yet, and its matcher.\<close>

definition empty_program :: "nat \<Rightarrow> matcher" where
  "empty_program n = init (\<lambda>v. []) n"

text \<open>The type parameters and classes of the examples.\<close>

definition tp_K :: val where
  "tp_K = TypeParameter ''K'' ''K'' [] None"

definition tp_V :: val where
  "tp_V = TypeParameter ''V'' ''V'' [] None"

definition cls_int :: val where
  "cls_int = Class ''builtins.int''"

definition cls_str :: val where
  "cls_str = Class ''builtins.str''"

definition tuple_of_K_int_V :: val where
  "tuple_of_K_int_V =
     TupleClass (Class ''builtins.tuple'')
       [(Index 0, tp_K), (Index 1, cls_int), (Index 2, tp_V),
        (Name ''_T'', Union [tp_K, cls_int, tp_V])] 3"

text \<open>
  A protocol with the attributes \<^verbatim>\<open>__iter__\<close> and \<^verbatim>\<open>__len__\<close>, and a class \<^verbatim>\<open>C\<close> that
  defines \<^verbatim>\<open>__getitem__\<close> only.
\<close>

definition sized_services :: services where
  "sized_services =
     example_services
       \<lparr>protocol_attributes := (\<lambda>c. if c = Class ''Sized_Iterable'' then [''__iter__'', ''__len__''] else []),
        is_protocol := (\<lambda>c. c = Class ''Sized_Iterable''),
        get_own_attributes := (\<lambda>c. if c = Class ''C'' then {''__getitem__''} else {})\<rparr>"

text \<open>\<^verbatim>\<open>Iterable[t]\<close>.\<close>

definition iterable_of :: "val \<Rightarrow> val" where
  "iterable_of t = ParameterizedClass (Class ''typing.Iterable'') [(Name ''_T'', t)]"

text \<open>
  A typed dictionary with one required field \<^verbatim>\<open>x: int\<close>, in a program where variable 5
  holds the class \<^verbatim>\<open>int\<close>, variable 6 holds the value \<^verbatim>\<open>Any\<close> and variable 7 holds an
  instance of \<^verbatim>\<open>str\<close>.
\<close>

definition typed_dict_program :: matcher where
  "typed_dict_program =
     init (\<lambda>v. if v = 5 then [cls_int] else if v = 6 then [Unsolvable]
               else if v = 7 then [Instance cls_str []] else []) 8"

definition typed_dict_x :: val where
  "typed_dict_x = TypedDictClass ''Point'' [(''x'', 5)] [''x'']"

text \<open>
  Type parameters with constraints and with bounds, a callable \<^verbatim>\<open>Callable[[T], T2]\<close>, the
  signature \<^verbatim>\<open>(x: S) -> V\<close> with \<^verbatim>\<open>S\<close> bounded by \<^verbatim>\<open>int\<close>, and a recursive matcher that
  raises whenever it is called.
\<close>

definition tp_S_int :: val where
  "tp_S_int = TypeParameter ''S'' ''S'' [cls_int] None"

definition tp_T_int_str :: val where
  "tp_T_int_str = TypeParameter ''T'' ''T'' [cls_int, cls_str] None"

definition tp_T_bound_float :: val where
  "tp_T_bound_float = TypeParameter ''T'' ''T'' [] (Some (Class ''builtins.float''))"

definition tp_T :: val where
  "tp_T = TypeParameter ''T'' ''T'' [] None"

definition tp_T2 :: val where
  "tp_T2 = TypeParameter ''T2'' ''T2'' [] None"

definition tp_S_bound_int :: val where
  "tp_S_bound_int = TypeParameter ''S'' ''S'' [] (Some cls_int)"

definition callable_T_to_T2 :: val where
  "callable_T_to_T2 =
     CallableClass (Class ''typing.Callable'')
       [(Index 0, tp_T), (Name ''_ARGS'', tp_T), (Name ''_RET'', tp_T2)] 1"

definition sig_S_to_V :: signature where
  "sig_S_to_V =
     \<lparr>param_names = [''x''], annotations = [(''x'', tp_S_bound_int), (''return'', tp_V)],
      mandatory_param_count = 1, maximum_param_count = Some 1\<rparr>"

definition raising :: match_fn where
  "raising value other_type subst view s = (Inl NotImplementedError, s)"

text \<open>A program whose variable 0 holds one value, and the binding of that value.\<close>

definition program_of :: "val \<Rightarrow> matcher" where
  "program_of d = init (\<lambda>v. if v = 0 then [d] else []) 1"

definition binding_of :: "val \<Rightarrow> binding" where
  "binding_of d = \<lparr>variable = 0, data = d\<rparr>"









section \<open>Notions used in the statements\<close>

text \<open>
  An entry \<^verbatim>\<open>(k, v, typ, b)\<close> of the list \<^verbatim>\<open>bad\<close> of a typed-dict error: \<^verbatim>\<open>k\<close> is a key of
  the dictionary with the value \<^verbatim>\<open>v\<close>, declared with the type \<^verbatim>\<open>typ\<close>, and \<^verbatim>\<open>b\<close> is the
  list of bad matches of \<^verbatim>\<open>v\<close> against \<^verbatim>\<open>typ\<close>, not empty.
\<close>

definition is_bad_match_entry ::
    "match_fn \<Rightarrow> services \<Rightarrow> (string \<times> variable) list \<Rightarrow> (string \<times> variable) list
       \<Rightarrow> string \<times> variable \<times> val \<times> (view \<times> error_details) list \<Rightarrow> bool" where
  "is_bad_match_entry rec ctx flds pyval e =
     (case e of
        (k, v, ty, b) \<Rightarrow>
          (k, v) \<in> set pyval \<and> b \<noteq> []
          \<and> (\<exists>fld s1 s2. map_of flds k = Some fld \<and> get_atomic_value ctx fld s1 = Inr ty
                \<and> bad_matches rec ctx v ty s1 = (Inr b, s2)))"


text \<open>
  The bad matches of one item \<^verbatim>\<open>(k, v)\<close> of a dictionary, computed in the state \<^verbatim>\<open>s\<close>:
  nothing when \<^verbatim>\<open>k\<close> is not declared; otherwise the bad matches \<^verbatim>\<open>b\<close> of \<^verbatim>\<open>v\<close> against
  the declared type \<^verbatim>\<open>typ\<close> of \<^verbatim>\<open>k\<close>, as the entry \<^verbatim>\<open>(k, v, typ, b)\<close> when \<^verbatim>\<open>b\<close> is not
  empty and nothing when it is; with the state that is left. \<^verbatim>\<open>None\<close> when something is
  raised.
\<close>

definition key_bad_matches ::
    "match_fn \<Rightarrow> services \<Rightarrow> (string \<times> variable) list \<Rightarrow> string \<times> variable \<Rightarrow> matcher
       \<Rightarrow> ((string \<times> variable \<times> val \<times> (view \<times> error_details) list) list \<times> matcher) option"
    where
  "key_bad_matches rec ctx flds kv s =
     (case map_of flds (fst kv) of
        None \<Rightarrow> Some ([], s)
      | Some fld \<Rightarrow>
          (case get_atomic_value ctx fld s of
             Inl e \<Rightarrow> None
           | Inr ty \<Rightarrow>
               (case bad_matches rec ctx (snd kv) ty s of
                  (Inl e, s') \<Rightarrow> None
                | (Inr b, s') \<Rightarrow>
                    Some (if b = [] then [] else [(fst kv, snd kv, ty, b)], s'))))"



text \<open>
  \<^verbatim>\<open>extends s s'\<close>: the state \<^verbatim>\<open>s'\<close> has every entry of the cache of recursive annotations
  of \<^verbatim>\<open>s\<close> and every variable of \<^verbatim>\<open>s\<close>, and each variable of \<^verbatim>\<open>s\<close> has in \<^verbatim>\<open>s'\<close> the
  bindings it has in \<^verbatim>\<open>s\<close>, in the same order, followed by the bindings added since.
\<close>

definition extends :: "matcher \<Rightarrow> matcher \<Rightarrow> bool" where
  "extends s s' \<longleftrightarrow>
     recursive_annots_cache s \<subseteq> recursive_annots_cache s'
   \<and> next_variable s \<le> next_variable s'
   \<and> (\<forall>v < next_variable s. \<exists>ds. bindings s' v = bindings s v @ ds)"



section \<open>Variables and allocation\<close>

lemma NewVariable_Nil:
  "NewVariable [] s =
     (next_variable s,
      s\<lparr>bindings := (bindings s)(next_variable s := []), next_variable := Suc (next_variable s)\<rparr>)"
  by (simp add: NewVariable_def)

lemma NewVariable_single:
  "NewVariable [d] s =
     (next_variable s,
      s\<lparr>bindings := (bindings s)(next_variable s := [d]), next_variable := Suc (next_variable s)\<rparr>)"
  by (simp add: NewVariable_def AddBinding_def)

text \<open>The definitions unfolded to run the matcher on the examples.\<close>

lemmas eval_defs =
  empty_program_def init_def example_services_def cls_int_def cls_str_def
  NewVariable_def AddBinding_def PasteVariable_def AssignToNewVariable_def
  instantiate_and_match_def match_all_bindings_def match_var_against_type_def update_view_def
  match_value_against_type_body_def unwrap_final_def rewrite_formal_def match_dispatch_def
  match_instance_against_type_def match_instance_def satisfies_noniterable_str_def
  match_from_mro_def subst_with_type_parameters_from_def example_type_parameters_def
  str_types_def conflicting_iter_types_def Let_def

section \<open>Matching the empty variable\<close>

lemma fill_nothing_props:
  "fill_nothing rs subst s = (subst', s') \<Longrightarrow>
     next_variable s \<le> next_variable s'
   \<and> (\<forall>v < next_variable s. bindings s' v = bindings s v)
   \<and> (\<forall>n v. map_of subst n = Some v \<longrightarrow> map_of subst' n = Some v)
   \<and> (\<forall>n. map_of subst n = None \<longrightarrow> n \<notin> full_name ` {p \<in> set rs. is_TypeParameter p}
         \<longrightarrow> map_of subst' n = None)
   \<and> (\<forall>n. map_of subst n = None \<longrightarrow> n \<in> full_name ` {p \<in> set rs. is_TypeParameter p} \<longrightarrow>
         (\<exists>v. map_of subst' n = Some v \<and> next_variable s \<le> v \<and> v < next_variable s'
              \<and> bindings s' v = []))"
proof (induction rs arbitrary: subst s)
  case Nil
  then show ?case by simp
next
  case (Cons r rs)
  show ?case
  proof (cases "is_TypeParameter r \<and> map_of subst (full_name r) = None")
    case True
    let ?v = "next_variable s"
    let ?s1 = "s\<lparr>bindings := (bindings s)(?v := []), next_variable := Suc ?v\<rparr>"
    let ?subst1 = "AList.update (full_name r) ?v subst"
    from Cons.prems True have run: "fill_nothing rs ?subst1 ?s1 = (subst', s')"
      by (simp add: NewVariable_Nil)
    note IH = Cons.IH[OF run]
    have m1: "map_of ?subst1 = (map_of subst)(full_name r \<mapsto> ?v)"
      by (simp add: update_conv')
    from IH have a: "Suc ?v \<le> next_variable s'" by simp
    from IH have b: "\<forall>v < Suc ?v. bindings s' v = bindings ?s1 v" by simp
    from IH have c: "\<forall>n v. map_of ?subst1 n = Some v \<longrightarrow> map_of subst' n = Some v" by blast
    from IH have d: "\<forall>n. map_of ?subst1 n = None
        \<longrightarrow> n \<notin> full_name ` {p \<in> set rs. is_TypeParameter p} \<longrightarrow> map_of subst' n = None"
      by blast
    from IH have e: "\<forall>n. map_of ?subst1 n = None
        \<longrightarrow> n \<in> full_name ` {p \<in> set rs. is_TypeParameter p} \<longrightarrow>
         (\<exists>v. map_of subst' n = Some v \<and> next_variable ?s1 \<le> v \<and> v < next_variable s'
              \<and> bindings s' v = [])"
      by blast
    have new: "map_of subst' (full_name r) = Some ?v" using c m1 by simp
    have newb: "bindings s' ?v = []" using b by simp
    show ?thesis
    proof (intro conjI allI impI)
      show "next_variable s \<le> next_variable s'" using a by simp
    next
      fix v assume "v < next_variable s"
      then show "bindings s' v = bindings s v" using b by simp
    next
      fix n v assume "map_of subst n = Some v"
      then show "map_of subst' n = Some v" using c m1 True by (cases "n = full_name r") auto
    next
      fix n
      assume n: "map_of subst n = None" "n \<notin> full_name ` {p \<in> set (r # rs). is_TypeParameter p}"
      then have "n \<noteq> full_name r" "n \<notin> full_name ` {p \<in> set rs. is_TypeParameter p}"
        using True by auto
      with n have "map_of ?subst1 n = None" using m1 by simp
      with d \<open>n \<notin> full_name ` {p \<in> set rs. is_TypeParameter p}\<close>
      show "map_of subst' n = None" by blast
    next
      fix n
      assume n: "map_of subst n = None" "n \<in> full_name ` {p \<in> set (r # rs). is_TypeParameter p}"
      show "\<exists>v. map_of subst' n = Some v \<and> next_variable s \<le> v \<and> v < next_variable s'
              \<and> bindings s' v = []"
      proof (cases "n = full_name r")
        case True
        then show ?thesis using new newb a by auto
      next
        case False
        with n have "map_of ?subst1 n = None" "n \<in> full_name ` {p \<in> set rs. is_TypeParameter p}"
          using m1 by auto
        with e obtain v where "map_of subst' n = Some v" "Suc ?v \<le> v" "v < next_variable s'"
            "bindings s' v = []"
          by auto
        then show ?thesis by auto
      qed
    qed
  next
    case False
    with Cons.prems have run: "fill_nothing rs subst s = (subst', s')" by auto
    note IH = Cons.IH[OF run]
    show ?thesis
    proof (intro conjI allI impI)
      show "next_variable s \<le> next_variable s'" using IH by simp
    next
      fix v assume "v < next_variable s"
      then show "bindings s' v = bindings s v" using IH by simp
    next
      fix n v assume "map_of subst n = Some v"
      then show "map_of subst' n = Some v" using IH by blast
    next
      fix n
      assume n: "map_of subst n = None" "n \<notin> full_name ` {p \<in> set (r # rs). is_TypeParameter p}"
      then have "n \<notin> full_name ` {p \<in> set rs. is_TypeParameter p}" by auto
      with n IH show "map_of subst' n = None" by blast
    next
      fix n
      assume n: "map_of subst n = None" "n \<in> full_name ` {p \<in> set (r # rs). is_TypeParameter p}"
      with False have "n \<in> full_name ` {p \<in> set rs. is_TypeParameter p}" by auto
      with n IH show "\<exists>v. map_of subst' n = Some v \<and> next_variable s \<le> v
              \<and> v < next_variable s' \<and> bindings s' v = []"
        by blast
    qed
  qed
qed

text \<open>
  C10. A variable with no bindings matches every formal type, whatever the recursive
  matcher is. The type parameters looked at are the options of the formal type if it
  is a union, the formal type itself otherwise, after a tuple class has been replaced
  by its parameter \<^verbatim>\<open>T\<close> (\<^const>\<open>right_side_options\<close>). The substitution returned keeps every entry of
  the input; a name it adds is the \<^verbatim>\<open>full_name\<close> of one of those type parameters and
  is mapped to a variable that did not exist before the call and has no bindings;
  every such name that was not bound is added. The variables that existed keep their
  bindings.
\<close>

theorem match_nothing_against_type:
  assumes "bindings s var = []"
  shows "\<exists>subst' s'.
      match_var_against_type rec ctx var other_type subst view s = (Inr (Some subst'), s')
    \<and> (\<forall>n v. map_of subst n = Some v \<longrightarrow> map_of subst' n = Some v)
    \<and> (\<forall>n. map_of subst n = None
          \<longrightarrow> n \<notin> full_name ` {p \<in> set (right_side_options ctx other_type). is_TypeParameter p}
          \<longrightarrow> map_of subst' n = None)
    \<and> (\<forall>n. map_of subst n = None
          \<longrightarrow> n \<in> full_name ` {p \<in> set (right_side_options ctx other_type). is_TypeParameter p}
          \<longrightarrow> (\<exists>v. map_of subst' n = Some v \<and> next_variable s \<le> v \<and> v < next_variable s'
                   \<and> bindings s' v = []))
    \<and> (\<forall>v < next_variable s. bindings s' v = bindings s v)"
proof -
  obtain subst' s' where run:
    "fill_nothing (right_side_options ctx other_type) subst s = (subst', s')"
    by (cases "fill_nothing (right_side_options ctx other_type) subst s") auto
  have res: "match_var_against_type rec ctx var other_type subst view s = (Inr (Some subst'), s')"
    using assms run by (simp add: match_var_against_type_def)
  from fill_nothing_props[OF run] res show ?thesis by blast
qed

theorem match_nothing_against_type_witness:
  "bindings (empty_program 2) 1 = []
   \<and> fst (match_var_against_type (match_value_against_type 1 example_services) example_services 1
            tuple_of_K_int_V [(''K'', 0)] [] (empty_program 2))
       = Inr (Some [(''K'', 0), (''V'', 2)])
   \<and> bindings (snd (match_var_against_type (match_value_against_type 1 example_services)
                     example_services 1 tuple_of_K_int_V [(''K'', 0)] [] (empty_program 2))) 2 = []"
  using match_nothing_against_type
    [of "empty_program 2" 1 "match_value_against_type 1 example_services" example_services
        tuple_of_K_int_V "[(''K'', 0)]" "[]"]
  by (simp add: empty_program_def init_def match_var_against_type_def right_side_options_def
      tuple_of_K_int_V_def tp_K_def tp_V_def cls_int_def example_services_def abstract_utils_T_def
      NewVariable_Nil)

section \<open>Protocols with missing attributes\<close>

text \<open>
  C8. When the class of \<^verbatim>\<open>left\<close> is neither ambiguous (or empty) nor dynamic and the
  protocol has an attribute that \<^verbatim>\<open>left\<close> does not have, \<^verbatim>\<open>_match_against_protocol\<close> fails
  and records a \<^verbatim>\<open>ProtocolMissingAttributesError\<close> with the class of \<^verbatim>\<open>left\<close>, the protocol
  and exactly the missing names; under \<^verbatim>\<open>_track_partially_matched_protocols\<close> the
  recorded error stays. The attributes of \<^verbatim>\<open>left\<close> are its members (for a simple value)
  and the own attributes of the classes of its MRO, with \<^verbatim>\<open>__iter__\<close> added when
  \<^verbatim>\<open>__getitem__\<close> is among them.
\<close>

theorem protocol_missing_attributes:
  assumes "\<not> is_AMBIGUOUS_OR_EMPTY (cls ctx left)" and "\<not> is_dynamic ctx (cls ctx left)"
    and "set (protocol_attributes ctx other_type) - get_attribute_names ctx left \<noteq> {}"
  shows "match_against_protocol ctx left other_type subst view s =
           (Inr None,
            s\<lparr>protocol_error :=
                 Some (ProtocolMissingAttributesError (cls ctx left) other_type
                         (set (protocol_attributes ctx other_type) - get_attribute_names ctx left))\<rparr>)
       \<and> track_partially_matched_protocols (match_against_protocol ctx left other_type subst view) s =
           (Inr None,
            s\<lparr>protocol_error :=
                 Some (ProtocolMissingAttributesError (cls ctx left) other_type
                         (set (protocol_attributes ctx other_type) - get_attribute_names ctx left))\<rparr>)
       \<and> get_attribute_names ctx left =
           (let declared =
                  (if is_SimpleValue left then members ctx left else {})
                  \<union> (\<Union>c \<in> {c \<in> set (mro ctx (cls ctx left)). is_Class c}. get_own_attributes ctx c)
            in declared \<union> (if ''__getitem__'' \<in> declared then {''__iter__''} else {}))"
proof -
  have a: "match_against_protocol ctx left other_type subst view s =
           (Inr None,
            s\<lparr>protocol_error :=
                 Some (ProtocolMissingAttributesError (cls ctx left) other_type
                         (set (protocol_attributes ctx other_type) - get_attribute_names ctx left))\<rparr>)"
    using assms by (simp add: match_against_protocol_def Let_def)
  have b: "get_attribute_names ctx left =
           (let declared =
                  (if is_SimpleValue left then members ctx left else {})
                  \<union> (\<Union>c \<in> {c \<in> set (mro ctx (cls ctx left)). is_Class c}. get_own_attributes ctx c)
            in declared \<union> (if ''__getitem__'' \<in> declared then {''__iter__''} else {}))"
    by (auto simp add: get_attribute_names_def Let_def)
  from a b show ?thesis by (simp add: track_partially_matched_protocols_def)
qed

theorem protocol_missing_attributes_witness:
  "\<not> is_AMBIGUOUS_OR_EMPTY (cls sized_services (Instance (Class ''C'') []))
   \<and> \<not> is_dynamic sized_services (cls sized_services (Instance (Class ''C'') []))
   \<and> get_attribute_names sized_services (Instance (Class ''C'') []) = {''__getitem__'', ''__iter__''}
   \<and> match_against_protocol sized_services (Instance (Class ''C'') []) (Class ''Sized_Iterable'') [] []
        (empty_program 0) =
       (Inr None,
        (empty_program 0)\<lparr>protocol_error :=
           Some (ProtocolMissingAttributesError (Class ''C'') (Class ''Sized_Iterable'') {''__len__''})\<rparr>)"
  using protocol_missing_attributes
    [of sized_services "Instance (Class ''C'') []" "Class ''Sized_Iterable''" "[]" "[]" "empty_program 0"]
  by (auto simp add: sized_services_def example_services_def get_attribute_names_def Let_def)

section \<open>The guard for strings that are not iterables of strings\<close>

text \<open>
  C6. An instance whose class is \<^verbatim>\<open>str\<close> or \<^verbatim>\<open>unicode\<close>, matched against a
  parameterization of \<^verbatim>\<open>Iterable\<close>, \<^verbatim>\<open>Sequence\<close>, \<^verbatim>\<open>Collection\<close> or \<^verbatim>\<open>Container\<close> whose
  parameter \<^verbatim>\<open>_T\<close> is \<^verbatim>\<open>str\<close> or \<^verbatim>\<open>unicode\<close>, fails in \<^verbatim>\<open>_match_instance_against_type\<close>,
  and the failure records \<^verbatim>\<open>NonIterableStrError\<close> with the class of the instance and
  the formal type. When the formal type is not parameterized, or its parameter is not
  a string type, the guard \<^verbatim>\<open>_satisfies_noniterable_str\<close> holds.
\<close>

theorem noniterable_str_guard:
  "(full_name (cls ctx left) \<in> set str_types
      \<and> full_name other_type \<in> set conflicting_iter_types
      \<and> is_ParameterizedClass other_type \<and> \<not> is_LiteralClass other_type
      \<and> full_name (get_formal_type_parameter ctx other_type ''_T'') \<in> set str_types
     \<longrightarrow> match_instance_against_type rec ctx left other_type subst view s =
           (Inr None,
            s\<lparr>noniterable_str_error := Some (NonIterableStrError (cls ctx left) other_type)\<rparr>))
   \<and> (\<not> is_ParameterizedClass other_type
        \<or> full_name (get_formal_type_parameter ctx other_type ''_T'') \<notin> set str_types
     \<longrightarrow> satisfies_noniterable_str ctx (cls ctx left) other_type)"
proof (intro conjI impI)
  assume h: "full_name (cls ctx left) \<in> set str_types
      \<and> full_name other_type \<in> set conflicting_iter_types
      \<and> is_ParameterizedClass other_type \<and> \<not> is_LiteralClass other_type
      \<and> full_name (get_formal_type_parameter ctx other_type ''_T'') \<in> set str_types"
  then have k: "is_Class other_type" "\<not> is_TypedDictClass other_type"
    by (cases other_type; simp)+
  from h have g: "\<not> satisfies_noniterable_str ctx (cls ctx left) other_type"
    by (simp add: satisfies_noniterable_str_def)
  from h k g show "match_instance_against_type rec ctx left other_type subst view s =
           (Inr None,
            s\<lparr>noniterable_str_error := Some (NonIterableStrError (cls ctx left) other_type)\<rparr>)"
    by (simp add: match_instance_against_type_def)
next
  assume "\<not> is_ParameterizedClass other_type
        \<or> full_name (get_formal_type_parameter ctx other_type ''_T'') \<notin> set str_types"
  then show "satisfies_noniterable_str ctx (cls ctx left) other_type"
    by (auto simp add: satisfies_noniterable_str_def)
qed

theorem noniterable_str_guard_witness:
  "match_instance_against_type (match_value_against_type 1 example_services) example_services
       (Instance cls_str []) (iterable_of cls_str) [] [] (empty_program 0) =
     (Inr None,
      (empty_program 0)\<lparr>noniterable_str_error :=
         Some (NonIterableStrError cls_str (iterable_of cls_str))\<rparr>)
   \<and> satisfies_noniterable_str example_services cls_str (Class ''typing.Iterable'')
   \<and> satisfies_noniterable_str example_services cls_str (iterable_of cls_int)"
  using noniterable_str_guard
    [where ctx = example_services and left = "Instance cls_str []"
       and other_type = "iterable_of cls_str"
       and rec = "match_value_against_type 1 example_services" and subst = "[]" and view = "[]"
       and s = "empty_program 0"]
    noniterable_str_guard
    [where ctx = example_services and left = "Instance cls_str []"
       and other_type = "Class ''typing.Iterable''"]
    noniterable_str_guard
    [where ctx = example_services and left = "Instance cls_str []"
       and other_type = "iterable_of cls_int"]
  by (simp add: iterable_of_def cls_str_def cls_int_def str_types_def conflicting_iter_types_def
      example_services_def)

section \<open>Typed dictionaries\<close>

lemma is_bad_match_entry_Cons:
  "is_bad_match_entry rec ctx flds pyval e \<Longrightarrow> is_bad_match_entry rec ctx flds (kv # pyval) e"
  by (cases e) (simp add: is_bad_match_entry_def)

lemma typed_dict_bad_entries:
  "typed_dict_bad rec ctx flds pyval bad0 s = (Inr bad, s') \<Longrightarrow>
     \<exists>new. bad = bad0 @ new \<and> (\<forall>e \<in> set new. is_bad_match_entry rec ctx flds pyval e)"
proof (induction pyval arbitrary: bad0 s)
  case Nil
  then show ?case by simp
next
  case (Cons kv pyval)
  obtain k v where kv: "kv = (k, v)" by (cases kv)
  show ?case
  proof (cases "map_of flds k")
    case None
    with Cons.prems kv have "typed_dict_bad rec ctx flds pyval bad0 s = (Inr bad, s')" by simp
    from Cons.IH[OF this] obtain new where
      "bad = bad0 @ new" "\<forall>e \<in> set new. is_bad_match_entry rec ctx flds pyval e" by blast
    then show ?thesis using is_bad_match_entry_Cons by blast
  next
    case (Some fld)
    with Cons.prems kv obtain ty where ty: "get_atomic_value ctx fld s = Inr ty"
      by (cases "get_atomic_value ctx fld s") simp_all
    obtain r s1 where bm: "bad_matches rec ctx v ty s = (r, s1)"
      by (cases "bad_matches rec ctx v ty s")
    with Cons.prems kv Some ty obtain b where b: "r = Inr b" by (cases r) simp_all
    let ?bad1 = "if b \<noteq> [] then bad0 @ [(k, v, ty, b)] else bad0"
    from Cons.prems kv Some ty bm b
    have run: "typed_dict_bad rec ctx flds pyval ?bad1 s1 = (Inr bad, s')" by simp
    from Cons.IH[OF run] obtain new where new: "bad = ?bad1 @ new"
       "\<forall>e \<in> set new. is_bad_match_entry rec ctx flds pyval e"
      by blast
    have new': "\<forall>e \<in> set new. is_bad_match_entry rec ctx flds (kv # pyval) e"
      using new(2) is_bad_match_entry_Cons by blast
    show ?thesis
    proof (cases "b \<noteq> []")
      case True
      have hd: "is_bad_match_entry rec ctx flds (kv # pyval) (k, v, ty, b)"
        using True kv Some ty bm b by (simp add: is_bad_match_entry_def) blast
      have "bad = bad0 @ ((k, v, ty, b) # new)" using new(1) True by simp
      moreover have "\<forall>e \<in> set ((k, v, ty, b) # new). is_bad_match_entry rec ctx flds (kv # pyval) e"
        using hd new' by simp
      ultimately show ?thesis by blast
    next
      case False
      then have "bad = bad0 @ new" using new(1) by simp
      with new' show ?thesis by blast
    qed
  qed
qed

lemma typed_dict_bad_run:
  "length states = length pyval \<Longrightarrow> length entries = length pyval
     \<Longrightarrow> \<forall>i < length pyval.
           key_bad_matches rec ctx flds (pyval ! i) ((s # states) ! i)
             = Some (entries ! i, states ! i)
     \<Longrightarrow> typed_dict_bad rec ctx flds pyval bad0 s
           = (Inr (bad0 @ concat entries), last (s # states))"
proof (induction pyval arbitrary: states entries bad0 s)
  case Nil
  then show ?case by simp
next
  case (Cons kv pyval)
  obtain k v where kv: "kv = (k, v)" by (cases kv)
  from Cons.prems(1) obtain s1 states' where ss: "states = s1 # states'"
    by (cases states) simp_all
  from Cons.prems(2) obtain e1 entries' where es: "entries = e1 # entries'"
    by (cases entries) simp_all
  from Cons.prems(3) have "key_bad_matches rec ctx flds ((kv # pyval) ! 0) ((s # states) ! 0)
      = Some (entries ! 0, states ! 0)"
    by blast
  then have first: "key_bad_matches rec ctx flds (k, v) s = Some (e1, s1)"
    by (simp add: kv ss es)
  have rest: "\<forall>i < length pyval.
      key_bad_matches rec ctx flds (pyval ! i) ((s1 # states') ! i)
        = Some (entries' ! i, states' ! i)"
  proof (intro allI impI)
    fix i assume "i < length pyval"
    then have "Suc i < length (kv # pyval)" by simp
    with Cons.prems(3) have
      "key_bad_matches rec ctx flds ((kv # pyval) ! Suc i) ((s # states) ! Suc i)
         = Some (entries ! Suc i, states ! Suc i)"
      by blast
    then show "key_bad_matches rec ctx flds (pyval ! i) ((s1 # states') ! i)
        = Some (entries' ! i, states' ! i)"
      by (simp add: ss es)
  qed
  have l1: "length states' = length pyval" using Cons.prems(1) ss by simp
  have l2: "length entries' = length pyval" using Cons.prems(2) es by simp
  note IH = Cons.IH[OF l1 l2 rest]
  show ?case
  proof (cases "map_of flds k")
    case None
    with first have "e1 = []" "s1 = s" by (simp_all add: key_bad_matches_def)
    with None IH[of bad0] show ?thesis by (simp add: kv ss es)
  next
    case (Some fld)
    with first obtain ty where ty: "get_atomic_value ctx fld s = Inr ty"
      by (cases "get_atomic_value ctx fld s") (simp_all add: key_bad_matches_def)
    obtain r s2 where bm: "bad_matches rec ctx v ty s = (r, s2)"
      by (cases "bad_matches rec ctx v ty s")
    with first Some ty obtain b where b: "r = Inr b"
      by (cases r) (simp_all add: key_bad_matches_def)
    from first Some ty bm b have e1: "e1 = (if b = [] then [] else [(k, v, ty, b)])"
      and s1: "s1 = s2"
      by (auto simp add: key_bad_matches_def)
    from Some ty bm b s1 have
      "typed_dict_bad rec ctx flds (kv # pyval) bad0 s
         = typed_dict_bad rec ctx flds pyval (if b \<noteq> [] then bad0 @ [(k, v, ty, b)] else bad0) s1"
      by (simp add: kv)
    also have "\<dots> = (Inr ((if b \<noteq> [] then bad0 @ [(k, v, ty, b)] else bad0) @ concat entries'),
                      last (s1 # states'))"
      by (rule IH)
    finally show ?thesis by (simp add: ss es e1)
  qed
qed

text \<open>
  C7. A concrete dictionary matched against a typed-dict class, when collecting the
  bad matches raises nothing. The items of the dictionary are visited in order, each
  in the state left by the one before: \<^verbatim>\<open>entries ! i\<close> is what the item \<^verbatim>\<open>i\<close> contributes,
  namely the entry of its key, its value, the declared type and the bad matches of the
  value against that type when the key is declared and these bad matches are not
  empty, and nothing otherwise; \<^verbatim>\<open>bad\<close> is the list of all of them. The missing keys are
  the required keys the dictionary does not have, the extra keys are the keys of the
  dictionary that are not declared. The match succeeds if and only if the missing
  keys, the extra keys and \<^verbatim>\<open>bad\<close> are all empty; otherwise it fails and records
  \<^verbatim>\<open>TypedDictError\<close> with exactly the three.
\<close>

theorem typed_dict_match:
  assumes "length states = length pyval" and "length entries = length pyval"
    and "\<forall>i < length pyval.
           key_bad_matches rec ctx flds (pyval ! i) ((s\<lparr>typed_dict_error := None\<rparr> # states) ! i)
             = Some (entries ! i, states ! i)"
    and "check_keys flds required (map fst pyval) = (missing, extra)"
    and "bad = concat entries"
    and "s' = last (s\<lparr>typed_dict_error := None\<rparr> # states)"
  shows "match_instance_against_type rec ctx (Dict c pyval) (TypedDictClass n flds required)
           subst view s =
           (if missing = {} \<and> extra = {} \<and> bad = [] then (Inr (Some subst), s')
            else (Inr None, s'\<lparr>typed_dict_error := Some (TypedDictError bad extra missing)\<rparr>))
       \<and> missing = set required - fst ` set pyval
       \<and> extra = fst ` set pyval - fst ` set flds
       \<and> (\<forall>e \<in> set bad. is_bad_match_entry rec ctx flds pyval e)"
proof -
  have run: "typed_dict_bad rec ctx flds pyval [] (s\<lparr>typed_dict_error := None\<rparr>) = (Inr bad, s')"
    using typed_dict_bad_run[OF assms(1) assms(2) assms(3), of "[]"] assms(5) assms(6)
    by simp
  have a: "match_instance_against_type rec ctx (Dict c pyval) (TypedDictClass n flds required)
           subst view s =
           (if missing = {} \<and> extra = {} \<and> bad = [] then (Inr (Some subst), s')
            else (Inr None, s'\<lparr>typed_dict_error := Some (TypedDictError bad extra missing)\<rparr>))"
    using run assms(4)
    by (simp add: match_instance_against_type_def match_dict_against_typed_dict_def)
  have b: "missing = set required - fst ` set pyval" "extra = fst ` set pyval - fst ` set flds"
    using assms(4) by (auto simp add: check_keys_def)
  from typed_dict_bad_entries[OF run]
  have c: "\<forall>e \<in> set bad. is_bad_match_entry rec ctx flds pyval e"
    by auto
  show ?thesis
    apply (intro conjI)
    apply (rule a)
    apply (rule b(1))
    apply (rule b(2))
    apply (rule c)
    done
qed


theorem typed_dict_match_witness:
  "match_instance_against_type (match_value_against_type 1 example_services) example_services
       (Dict (Class ''builtins.dict'') [(''x'', 6)]) typed_dict_x [] [] typed_dict_program
     = (Inr (Some []), typed_dict_program)
   \<and> match_instance_against_type (match_value_against_type 1 example_services) example_services
       (Dict (Class ''builtins.dict'') [(''z'', 7)]) typed_dict_x [] [] typed_dict_program
     = (Inr None,
        typed_dict_program\<lparr>typed_dict_error := Some (TypedDictError [] {''z''} {''x''})\<rparr>)
   \<and> match_instance_against_type (match_value_against_type 1 example_services) example_services
       (Dict (Class ''builtins.dict'') [(''x'', 7)]) typed_dict_x [] [] typed_dict_program
     = (Inr None,
        typed_dict_program\<lparr>typed_dict_error :=
          Some (TypedDictError
                  [(''x'', 7, cls_int,
                    [([(7, \<lparr>variable = 7, data = Instance cls_str []\<rparr>)],
                      ErrorDetails None None None)])]
                  {} {})\<rparr>)"
proof -
  let ?rec = "match_value_against_type 1 example_services"
  let ?s = "typed_dict_program\<lparr>typed_dict_error := None\<rparr>"
  let ?e = "(''x'', 7::nat, cls_int,
             [([(7::nat, \<lparr>variable = 7, data = Instance cls_str []\<rparr>)],
               ErrorDetails None None None)])"
  have s: "?s = typed_dict_program"
    by (simp add: typed_dict_program_def init_def)
  have k1: "key_bad_matches ?rec example_services [(''x'', 5)] (''x'', 6) ?s
              = Some ([], typed_dict_program)"
    by (simp add: key_bad_matches_def typed_dict_program_def init_def example_services_def
          bad_matches_def)
  have k2: "key_bad_matches ?rec example_services [(''x'', 5)] (''z'', 7) ?s
              = Some ([], typed_dict_program)"
    by (simp add: key_bad_matches_def typed_dict_program_def init_def)
  have k3: "key_bad_matches ?rec example_services [(''x'', 5)] (''x'', 7) ?s
              = Some ([?e], typed_dict_program)"
    by (simp add: key_bad_matches_def typed_dict_program_def bad_matches_def
          error_details_of_def eval_defs)
  have c1: "check_keys [(''x'', 5)] [''x''] (map fst [(''x'', 6::nat)]) = ({}, {})"
    by (simp add: check_keys_def)
  have c2: "check_keys [(''x'', 5)] [''x''] (map fst [(''z'', 7::nat)]) = ({''x''}, {''z''})"
    by (auto simp add: check_keys_def)
  have c3: "check_keys [(''x'', 5)] [''x''] (map fst [(''x'', 7::nat)]) = ({}, {})"
    by (simp add: check_keys_def)
  have r1: "match_instance_against_type ?rec example_services
       (Dict (Class ''builtins.dict'') [(''x'', 6)]) (TypedDictClass ''Point'' [(''x'', 5)] [''x''])
       [] [] typed_dict_program = (Inr (Some []), typed_dict_program)"
    using typed_dict_match[of "[typed_dict_program]" "[(''x'', 6)]" "[[]]" ?rec example_services
        "[(''x'', 5)]" typed_dict_program "[''x'']" "{}" "{}" "[]" typed_dict_program
        "Class ''builtins.dict''" "''Point''" "[]" "[]"] k1 c1
    by simp
  have r2: "match_instance_against_type ?rec example_services
       (Dict (Class ''builtins.dict'') [(''z'', 7)]) (TypedDictClass ''Point'' [(''x'', 5)] [''x''])
       [] [] typed_dict_program =
       (Inr None,
        typed_dict_program\<lparr>typed_dict_error := Some (TypedDictError [] {''z''} {''x''})\<rparr>)"
    using typed_dict_match[of "[typed_dict_program]" "[(''z'', 7)]" "[[]]" ?rec example_services
        "[(''x'', 5)]" typed_dict_program "[''x'']" "{''x''}" "{''z''}" "[]" typed_dict_program
        "Class ''builtins.dict''" "''Point''" "[]" "[]"] k2 c2
    by simp
  have r3: "match_instance_against_type ?rec example_services
       (Dict (Class ''builtins.dict'') [(''x'', 7)]) (TypedDictClass ''Point'' [(''x'', 5)] [''x''])
       [] [] typed_dict_program =
       (Inr None,
        typed_dict_program\<lparr>typed_dict_error := Some (TypedDictError [?e] {} {})\<rparr>)"
    using typed_dict_match[of "[typed_dict_program]" "[(''x'', 7)]" "[[?e]]" ?rec example_services
        "[(''x'', 5)]" typed_dict_program "[''x'']" "{}" "{}" "[?e]" typed_dict_program
        "Class ''builtins.dict''" "''Point''" "[]" "[]"] k3 c3
    by simp
  from r1 r2 r3 show ?thesis unfolding typed_dict_x_def by (intro conjI)
qed


section \<open>Type parameters against type parameters\<close>

lemma mcab_success:
  "match_constraints_against_bound rec ctx cs b subst view s = (Inr (Some r), s') \<Longrightarrow>
     r = subst \<and> (\<forall>t \<in> set cs. \<exists>s1 r1 s2.
            instantiate_and_match rec ctx t b subst view None s1 = (Inr (Some r1), s2))"
proof (induction cs arbitrary: s)
  case Nil
  then show ?case by simp
next
  case (Cons t ts)
  obtain x s1 where st: "instantiate_and_match rec ctx t b subst view None s = (x, s1)"
    by (cases "instantiate_and_match rec ctx t b subst view None s")
  show ?case
  proof (cases x)
    case (Inl e)
    with Cons.prems st show ?thesis by simp
  next
    case (Inr y)
    show ?thesis
    proof (cases y)
      case None
      with Inr Cons.prems st show ?thesis by simp
    next
      case (Some r1)
      with Inr Cons.prems st
      have "match_constraints_against_bound rec ctx ts b subst view s1 = (Inr (Some r), s')"
        by simp
      from Cons.IH[OF this] st Inr Some show ?thesis by auto
    qed
  qed
qed

lemma mcab_failure:
  "match_constraints_against_bound rec ctx cs b subst view s = (Inr None, s') \<Longrightarrow>
     \<exists>t \<in> set cs. \<exists>s1 s2. instantiate_and_match rec ctx t b subst view None s1 = (Inr None, s2)"
proof (induction cs arbitrary: s)
  case Nil
  then show ?case by simp
next
  case (Cons t ts)
  obtain x s1 where st: "instantiate_and_match rec ctx t b subst view None s = (x, s1)"
    by (cases "instantiate_and_match rec ctx t b subst view None s")
  show ?case
  proof (cases x)
    case (Inl e)
    with Cons.prems st show ?thesis by simp
  next
    case (Inr y)
    show ?thesis
    proof (cases y)
      case None
      with Inr st show ?thesis by auto
    next
      case (Some r1)
      with Inr st Cons.prems
      have "match_constraints_against_bound rec ctx ts b subst view s1 = (Inr None, s')" by simp
      from Cons.IH[OF this] show ?thesis by auto
    qed
  qed
qed

lemma mcab_total:
  "(\<forall>t \<in> set cs. \<forall>s1. \<exists>r1 s2.
       instantiate_and_match rec ctx t b subst view None s1 = (Inr (Some r1), s2)) \<Longrightarrow>
     \<exists>s'. match_constraints_against_bound rec ctx cs b subst view s = (Inr (Some subst), s')"
proof (induction cs arbitrary: s)
  case Nil
  then show ?case by simp
next
  case (Cons t ts)
  from Cons.prems obtain r1 s1 where
    st: "instantiate_and_match rec ctx t b subst view None s = (Inr (Some r1), s1)"
    by (meson list.set_intros(1))
  from Cons.prems have "\<forall>t \<in> set ts. \<forall>s1. \<exists>r1 s2.
       instantiate_and_match rec ctx t b subst view None s1 = (Inr (Some r1), s2)" by simp
  from Cons.IH[OF this, of s1] st show ?case by simp
qed

text \<open>
  C9. \<^verbatim>\<open>_match_type_param_against_type_param\<close> on two type parameters. Constraints and a
  bound together on the right fail the assertion of line 269. With constraints on the
  right, the match succeeds exactly when the left has constraints and they are a
  subset of those of the right. With a bound \<^verbatim>\<open>b2\<close> on the right: a success is either
  the match of the left bound against \<^verbatim>\<open>b2\<close>, or the left has constraints and each of
  them has matched \<^verbatim>\<open>b2\<close>; the match of the left bound suffices; when the left has no
  bound or its bound does not match, constraints that all match suffice, and with no
  constraints the match fails.
\<close>

theorem type_param_against_type_param:
  assumes "is_TypeParameter t1" and "is_TypeParameter t2"
  shows
    "(constraints t2 \<noteq> [] \<and> bound t2 \<noteq> None \<longrightarrow>
        match_type_param_against_type_param rec ctx t1 t2 subst view s = (Inl AssertionError, s))
   \<and> (constraints t2 \<noteq> [] \<and> bound t2 = None \<longrightarrow>
        match_type_param_against_type_param rec ctx t1 t2 subst view s =
          (Inr (if constraints t1 \<noteq> [] \<and> set (constraints t1) \<subseteq> set (constraints t2)
                then Some subst else None), s))
   \<and> (\<forall>b2. constraints t2 = [] \<and> bound t2 = Some b2 \<longrightarrow>
        (\<forall>r s'. match_type_param_against_type_param rec ctx t1 t2 subst view s = (Inr (Some r), s')
           \<longrightarrow> (\<exists>b1. bound t1 = Some b1
                    \<and> instantiate_and_match rec ctx b1 b2 subst view None s = (Inr (Some r), s'))
               \<or> (r = subst \<and> constraints t1 \<noteq> []
                    \<and> (\<forall>t \<in> set (constraints t1). \<exists>s1 r1 s2.
                          instantiate_and_match rec ctx t b2 subst view None s1
                            = (Inr (Some r1), s2))))
      \<and> (\<forall>b1 r s'. bound t1 = Some b1
              \<and> instantiate_and_match rec ctx b1 b2 subst view None s = (Inr (Some r), s')
           \<longrightarrow> match_type_param_against_type_param rec ctx t1 t2 subst view s = (Inr (Some r), s'))
      \<and> ((bound t1 = None
             \<or> (\<exists>b1 s1. bound t1 = Some b1
                   \<and> instantiate_and_match rec ctx b1 b2 subst view None s = (Inr None, s1)))
            \<and> constraints t1 \<noteq> []
            \<and> (\<forall>t \<in> set (constraints t1). \<forall>s1. \<exists>r1 s2.
                  instantiate_and_match rec ctx t b2 subst view None s1 = (Inr (Some r1), s2))
           \<longrightarrow> (\<exists>s'. match_type_param_against_type_param rec ctx t1 t2 subst view s
                        = (Inr (Some subst), s')))
      \<and> ((bound t1 = None
             \<or> (\<exists>b1 s1. bound t1 = Some b1
                   \<and> instantiate_and_match rec ctx b1 b2 subst view None s = (Inr None, s1)))
            \<and> constraints t1 = []
           \<longrightarrow> fst (match_type_param_against_type_param rec ctx t1 t2 subst view s) = Inr None))"
proof (intro conjI allI impI)
  assume "constraints t2 \<noteq> [] \<and> bound t2 \<noteq> None"
  then show "match_type_param_against_type_param rec ctx t1 t2 subst view s = (Inl AssertionError, s)"
    using assms by (simp add: match_type_param_against_type_param_def)
next
  assume "constraints t2 \<noteq> [] \<and> bound t2 = None"
  then show "match_type_param_against_type_param rec ctx t1 t2 subst view s =
          (Inr (if constraints t1 \<noteq> [] \<and> set (constraints t1) \<subseteq> set (constraints t2)
                then Some subst else None), s)"
    using assms by (auto simp add: match_type_param_against_type_param_def)
next
  fix b2 r s'
  assume h: "constraints t2 = [] \<and> bound t2 = Some b2"
    and run: "match_type_param_against_type_param rec ctx t1 t2 subst view s = (Inr (Some r), s')"
  show "(\<exists>b1. bound t1 = Some b1
           \<and> instantiate_and_match rec ctx b1 b2 subst view None s = (Inr (Some r), s'))
      \<or> (r = subst \<and> constraints t1 \<noteq> []
           \<and> (\<forall>t \<in> set (constraints t1). \<exists>s1 r1 s2.
                 instantiate_and_match rec ctx t b2 subst view None s1 = (Inr (Some r1), s2)))"
  proof (cases "bound t1")
    case None
    with h run assms have c: "constraints t1 \<noteq> []"
      and "match_constraints_against_bound rec ctx (constraints t1) b2 subst view s = (Inr (Some r), s')"
      by (auto simp add: match_type_param_against_type_param_def split: if_splits)
    with mcab_success show ?thesis by blast
  next
    case (Some b1)
    obtain x s1 where st: "instantiate_and_match rec ctx b1 b2 subst view None s = (x, s1)"
      by (cases "instantiate_and_match rec ctx b1 b2 subst view None s")
    show ?thesis
    proof (cases x)
      case (Inl e)
      with h run assms Some st show ?thesis
        by (simp add: match_type_param_against_type_param_def)
    next
      case (Inr y)
      show ?thesis
      proof (cases y)
        case None
        with Inr h run assms Some st have c: "constraints t1 \<noteq> []"
          and "match_constraints_against_bound rec ctx (constraints t1) b2 subst view s1 = (Inr (Some r), s')"
          by (auto simp add: match_type_param_against_type_param_def split: if_splits)
        with mcab_success show ?thesis by blast
      next
        case (Some r1)
        with Inr h run assms \<open>bound t1 = Some b1\<close> st show ?thesis
          by (simp add: match_type_param_against_type_param_def)
      qed
    qed
  qed
next
  fix b2 b1 r s'
  assume "constraints t2 = [] \<and> bound t2 = Some b2"
    and "bound t1 = Some b1 \<and> instantiate_and_match rec ctx b1 b2 subst view None s = (Inr (Some r), s')"
  then show "match_type_param_against_type_param rec ctx t1 t2 subst view s = (Inr (Some r), s')"
    using assms by (simp add: match_type_param_against_type_param_def)
next
  fix b2
  assume h: "constraints t2 = [] \<and> bound t2 = Some b2"
    and k: "(bound t1 = None
             \<or> (\<exists>b1 s1. bound t1 = Some b1
                   \<and> instantiate_and_match rec ctx b1 b2 subst view None s = (Inr None, s1)))
            \<and> constraints t1 \<noteq> []
            \<and> (\<forall>t \<in> set (constraints t1). \<forall>s1. \<exists>r1 s2.
                  instantiate_and_match rec ctx t b2 subst view None s1 = (Inr (Some r1), s2))"
  from k have tot: "\<And>s0. \<exists>s'. match_constraints_against_bound rec ctx (constraints t1) b2 subst view s0
                       = (Inr (Some subst), s')"
    using mcab_total by blast
  from k have "bound t1 = None
      \<or> (\<exists>b1 s1. bound t1 = Some b1
            \<and> instantiate_and_match rec ctx b1 b2 subst view None s = (Inr None, s1))"
    by (rule conjunct1)
  then consider "bound t1 = None"
    | b1 s1 where "bound t1 = Some b1"
        "instantiate_and_match rec ctx b1 b2 subst view None s = (Inr None, s1)"
    by auto
  then show "\<exists>s'. match_type_param_against_type_param rec ctx t1 t2 subst view s
                 = (Inr (Some subst), s')"
  proof cases
    case 1
    with h k assms tot[of s] show ?thesis
      by (simp add: match_type_param_against_type_param_def)
  next
    case 2
    with h k assms tot[of s1] show ?thesis
      by (simp add: match_type_param_against_type_param_def)
  qed
next
  fix b2
  assume h: "constraints t2 = [] \<and> bound t2 = Some b2"
    and k: "(bound t1 = None
             \<or> (\<exists>b1 s1. bound t1 = Some b1
                   \<and> instantiate_and_match rec ctx b1 b2 subst view None s = (Inr None, s1)))
            \<and> constraints t1 = []"
  then show "fst (match_type_param_against_type_param rec ctx t1 t2 subst view s) = Inr None"
    using assms by (auto simp add: match_type_param_against_type_param_def)
qed


theorem type_param_against_type_param_witness:
  "is_TypeParameter tp_S_int \<and> is_TypeParameter tp_T_int_str
   \<and> match_type_param_against_type_param
         (match_value_against_type (Suc (Suc 0)) example_services) example_services
         tp_S_int tp_T_int_str [] [] (empty_program 0) = (Inr (Some []), empty_program 0)
   \<and> match_type_param_against_type_param
         (match_value_against_type (Suc (Suc 0)) example_services) example_services
         tp_T_int_str tp_S_int [] [] (empty_program 0) = (Inr None, empty_program 0)
   \<and> fst (match_type_param_against_type_param
         (match_value_against_type (Suc (Suc 0)) example_services) example_services
         tp_S_bound_int tp_T_bound_float [] [] (empty_program 0)) = Inr (Some [])"
proof -
  let ?rec = "match_value_against_type (Suc (Suc 0)) example_services"
  have tps: "is_TypeParameter tp_S_int" "is_TypeParameter tp_T_int_str"
    "is_TypeParameter tp_S_bound_int" "is_TypeParameter tp_T_bound_float"
    by (simp_all add: tp_S_int_def tp_T_int_str_def tp_S_bound_int_def tp_T_bound_float_def)
  have bnd: "instantiate_and_match ?rec example_services cls_int (Class ''builtins.float'') [] []
               None (empty_program 0)
             = (Inr (Some []), snd (instantiate_and_match ?rec example_services cls_int
                  (Class ''builtins.float'') [] [] None (empty_program 0)))"
    by (simp add: eval_defs)
  note th1 = type_param_against_type_param
         [OF tps(1) tps(2), of ?rec example_services "[]" "[]" "empty_program 0"]
  note th2 = type_param_against_type_param
         [OF tps(2) tps(1), of ?rec example_services "[]" "[]" "empty_program 0"]
  note th3 = type_param_against_type_param
         [OF tps(3) tps(4), of ?rec example_services "[]" "[]" "empty_program 0"]
  have a: "match_type_param_against_type_param ?rec example_services
         tp_S_int tp_T_int_str [] [] (empty_program 0) = (Inr (Some []), empty_program 0)"
    using th1[THEN conjunct2, THEN conjunct1]
    by (simp add: tp_S_int_def tp_T_int_str_def cls_int_def cls_str_def)
  have b: "match_type_param_against_type_param ?rec example_services
         tp_T_int_str tp_S_int [] [] (empty_program 0) = (Inr None, empty_program 0)"
    using th2[THEN conjunct2, THEN conjunct1]
    by (simp add: tp_S_int_def tp_T_int_str_def cls_int_def cls_str_def)
  have pre: "constraints tp_T_bound_float = []
             \<and> bound tp_T_bound_float = Some (Class ''builtins.float'')"
    by (simp add: tp_T_bound_float_def)
  note th3b = th3[THEN conjunct2, THEN conjunct2, THEN spec, THEN mp, OF pre,
                  THEN conjunct2, THEN conjunct1, THEN spec, THEN spec, THEN spec, THEN mp]
  have pre2: "bound tp_S_bound_int = Some cls_int
      \<and> instantiate_and_match ?rec example_services cls_int (Class ''builtins.float'') [] []
               None (empty_program 0)
             = (Inr (Some []), snd (instantiate_and_match ?rec example_services cls_int
                  (Class ''builtins.float'') [] [] None (empty_program 0)))"
    using bnd by (simp add: tp_S_bound_int_def)
  have c: "fst (match_type_param_against_type_param ?rec example_services
         tp_S_bound_int tp_T_bound_float [] [] (empty_program 0)) = Inr (Some [])"
    using th3b[OF pre2] by simp
  from tps a b c show ?thesis by simp
qed

section \<open>The short circuit for a single type variable\<close>

text \<open>
  C4, as the claim states it, fails: the left side need not be bare. A type parameter
  bounded by \<^verbatim>\<open>int\<close> on the left and a bare \<^verbatim>\<open>T\<close> that occurs once in \<^verbatim>\<open>Callable[[T], T2]\<close>
  take the short circuit, and the signature matches although the recursive matcher
  raises whenever it is called: no normal matching is attempted.
\<close>

theorem bounded_left_short_circuit:
  "bound tp_S_bound_int \<noteq> None
   \<and> fst (param_match example_services callable_T_to_T2 tp_S_bound_int tp_T []
            (empty_program 0)) = Some [(''T'', 0)]
   \<and> fst (match_signature_against_callable raising example_services sig_S_to_V callable_T_to_T2
            [] [] (empty_program 0)) = Inr (Some [(''T2'', 0), (''T'', 1)])"
  by (simp add: tp_S_bound_int_def tp_T_def tp_T2_def tp_V_def cls_int_def callable_T_to_T2_def
      sig_S_to_V_def param_match_def callable_param_count_def example_services_def
      example_type_parameters_def abstract_utils_ARGS_def abstract_utils_RET_def
      match_signature_against_callable_def annotation_or_unsolvable_def NewVariable_single
      empty_program_def init_def Let_def)

text \<open>
  C4, amended. The short circuit applies exactly when the left side is a type
  parameter (bare or not), the right side is a bare type parameter, and the right
  side occurs once in the callable (the occurrences in \<^verbatim>\<open>ARGS\<close> subtracted for a
  \<^verbatim>\<open>CallableClass\<close>). It binds the \<^verbatim>\<open>full_name\<close> of the right side to a new variable
  holding the empty value and changes nothing else. In the loops over the parameters
  of a signature and over the arguments of a callable instance, a pair that takes the
  short circuit goes on with the next pair without calling the matcher; otherwise the
  pair is matched normally, with the sides flipped.
\<close>

theorem single_type_variable_short_circuit:
  "param_match ctx callable_type left right subst s =
     (if is_TypeParameter left \<and> is_TypeParameter right \<and> constraints right = []
         \<and> bound right = None \<and> callable_param_count ctx callable_type right = 1
      then (Some (AList.update (full_name right) (next_variable s) subst),
            s\<lparr>bindings := (bindings s)(next_variable s := [Empty]),
              next_variable := Suc (next_variable s)\<rparr>)
      else (None, s))
   \<and> (\<forall>expected new_subst s'.
         map_of (formal_type_parameters callable_type) (Index i) = Some expected
         \<and> param_match ctx callable_type (annotation_or_unsolvable sig n) expected subst s
             = (Some new_subst, s')
         \<longrightarrow> match_signature_params rec ctx sig callable_type ((n, i) # rest) subst view s
             = match_signature_params rec ctx sig callable_type rest new_subst view s')
   \<and> (\<forall>expected s'.
         map_of (formal_type_parameters callable_type) (Index i) = Some expected
         \<and> param_match ctx callable_type (annotation_or_unsolvable sig n) expected subst s
             = (None, s')
         \<longrightarrow> match_signature_params rec ctx sig callable_type ((n, i) # rest) subst view s
             = (case instantiate_and_match rec ctx expected (annotation_or_unsolvable sig n)
                       subst view (Some (ValueContainer callable_type)) s of
                  (Inl e, s'') \<Rightarrow> (Inl e, s'')
                | (Inr None, s'') \<Rightarrow> (Inr None, s'')
                | (Inr (Some subst'), s'') \<Rightarrow>
                    match_signature_params rec ctx sig callable_type rest subst' view s''))
   \<and> (\<forall>left_arg right_arg new_subst s'.
         map_of (formal_type_parameters left_type) (Index i) = Some left_arg
         \<and> map_of (formal_type_parameters callable_type) (Index i) = Some right_arg
         \<and> param_match ctx callable_type left_arg right_arg subst s = (Some new_subst, s')
         \<longrightarrow> match_callable_args rec ctx left_type callable_type (i # is) subst view s
             = match_callable_args rec ctx left_type callable_type is new_subst view s')
   \<and> (\<forall>left_arg right_arg s'.
         map_of (formal_type_parameters left_type) (Index i) = Some left_arg
         \<and> map_of (formal_type_parameters callable_type) (Index i) = Some right_arg
         \<and> param_match ctx callable_type left_arg right_arg subst s = (None, s')
         \<longrightarrow> match_callable_args rec ctx left_type callable_type (i # is) subst view s
             = (case instantiate_and_match rec ctx right_arg left_arg subst view
                       (Some (ValueContainer callable_type)) s of
                  (Inl e, s'') \<Rightarrow> (Inl e, s'')
                | (Inr None, s'') \<Rightarrow> (Inr None, s'')
                | (Inr (Some subst'), s'') \<Rightarrow>
                    match_callable_args rec ctx left_type callable_type is subst' view s''))"
proof -
  have pm: "param_match ctx callable_type left right subst s =
     (if is_TypeParameter left \<and> is_TypeParameter right \<and> constraints right = []
         \<and> bound right = None \<and> callable_param_count ctx callable_type right = 1
      then (Some (AList.update (full_name right) (next_variable s) subst),
            s\<lparr>bindings := (bindings s)(next_variable s := [Empty]),
              next_variable := Suc (next_variable s)\<rparr>)
      else (None, s))" for left right
    by (simp add: param_match_def NewVariable_single)
  have none: "param_match ctx callable_type l r subst s = (None, s') \<Longrightarrow> s' = s" for l r s'
    by (simp add: pm split: if_splits)
  show ?thesis
  proof (intro conjI allI impI)
    show "param_match ctx callable_type left right subst s =
     (if is_TypeParameter left \<and> is_TypeParameter right \<and> constraints right = []
         \<and> bound right = None \<and> callable_param_count ctx callable_type right = 1
      then (Some (AList.update (full_name right) (next_variable s) subst),
            s\<lparr>bindings := (bindings s)(next_variable s := [Empty]),
              next_variable := Suc (next_variable s)\<rparr>)
      else (None, s))"
      by (rule pm)
  next
    fix expected new_subst s'
    assume "map_of (formal_type_parameters callable_type) (Index i) = Some expected
         \<and> param_match ctx callable_type (annotation_or_unsolvable sig n) expected subst s
             = (Some new_subst, s')"
    then show "match_signature_params rec ctx sig callable_type ((n, i) # rest) subst view s
             = match_signature_params rec ctx sig callable_type rest new_subst view s'"
      by simp
  next
    fix expected s'
    assume h: "map_of (formal_type_parameters callable_type) (Index i) = Some expected
         \<and> param_match ctx callable_type (annotation_or_unsolvable sig n) expected subst s
             = (None, s')"
    then have "s' = s" using none by blast
    with h show "match_signature_params rec ctx sig callable_type ((n, i) # rest) subst view s
             = (case instantiate_and_match rec ctx expected (annotation_or_unsolvable sig n)
                       subst view (Some (ValueContainer callable_type)) s of
                  (Inl e, s'') \<Rightarrow> (Inl e, s'')
                | (Inr None, s'') \<Rightarrow> (Inr None, s'')
                | (Inr (Some subst'), s'') \<Rightarrow>
                    match_signature_params rec ctx sig callable_type rest subst' view s'')"
      by simp
  next
    fix left_arg right_arg new_subst s'
    assume "map_of (formal_type_parameters left_type) (Index i) = Some left_arg
         \<and> map_of (formal_type_parameters callable_type) (Index i) = Some right_arg
         \<and> param_match ctx callable_type left_arg right_arg subst s = (Some new_subst, s')"
    then show "match_callable_args rec ctx left_type callable_type (i # is) subst view s
             = match_callable_args rec ctx left_type callable_type is new_subst view s'"
      by simp
  next
    fix left_arg right_arg s'
    assume h: "map_of (formal_type_parameters left_type) (Index i) = Some left_arg
         \<and> map_of (formal_type_parameters callable_type) (Index i) = Some right_arg
         \<and> param_match ctx callable_type left_arg right_arg subst s = (None, s')"
    then have "s' = s" using none by blast
    with h show "match_callable_args rec ctx left_type callable_type (i # is) subst view s
             = (case instantiate_and_match rec ctx right_arg left_arg subst view
                       (Some (ValueContainer callable_type)) s of
                  (Inl e, s'') \<Rightarrow> (Inl e, s'')
                | (Inr None, s'') \<Rightarrow> (Inr None, s'')
                | (Inr (Some subst'), s'') \<Rightarrow>
                    match_callable_args rec ctx left_type callable_type is subst' view s'')"
      by simp
  qed
qed

theorem single_type_variable_short_circuit_witness:
  "param_match example_services callable_T_to_T2 tp_S_bound_int tp_T [] (empty_program 0) =
     (Some [(''T'', 0)],
      (empty_program 0)\<lparr>bindings := (bindings (empty_program 0))(0 := [Empty]),
                         next_variable := Suc 0\<rparr>)
   \<and> param_match example_services callable_T_to_T2 tp_T tp_S_bound_int [] (empty_program 0) =
     (None, empty_program 0)"
  using single_type_variable_short_circuit
    [where ctx = example_services and callable_type = callable_T_to_T2
       and left = tp_S_bound_int and right = tp_T and subst = "[]" and s = "empty_program 0"]
    single_type_variable_short_circuit
    [where ctx = example_services and callable_type = callable_T_to_T2
       and left = tp_T and right = tp_S_bound_int and subst = "[]" and s = "empty_program 0"]
  by (simp add: tp_S_bound_int_def tp_T_def tp_T2_def cls_int_def callable_T_to_T2_def
      callable_param_count_def example_services_def example_type_parameters_def
      abstract_utils_ARGS_def empty_program_def init_def)

section \<open>NoReturn\<close>

text \<open>
  C5, as the claim states it, fails: \<^verbatim>\<open>Unknown\<close> is not accepted. \<^verbatim>\<open>NoReturn\<close> as a value
  against \<^verbatim>\<open>Unknown\<close>, and \<^verbatim>\<open>Unknown\<close> as a value against \<^verbatim>\<open>NoReturn\<close>, do not match.
\<close>

theorem noreturn_against_unknown:
  "match_value_against_type (Suc 0) example_services (binding_of NoReturn) Unknown [] []
       (program_of NoReturn) = (Inr None, program_of NoReturn)
   \<and> match_value_against_type (Suc 0) example_services (binding_of Unknown) NoReturn [] []
       (program_of Unknown) = (Inr None, program_of Unknown)"
  by (simp add: binding_of_def program_of_def eval_defs)

text \<open>
  C5, amended. Let \<^verbatim>\<open>left\<close> and \<^verbatim>\<open>other_type\<close> be the value and the formal type after
  \<^verbatim>\<open>Final\<close> is unwrapped, one of them \<^verbatim>\<open>NoReturn\<close>. When the pair is not answered by the
  cache of recursive annotations, the value is not formal and not a type parameter
  instance of a callable, and the formal type is not a type parameter, the match
  succeeds, with the substitution unchanged, if and only if the two sides are equal
  (both \<^verbatim>\<open>NoReturn\<close>) or the other side is \<^verbatim>\<open>Unsolvable\<close>. The state changes only by the
  entry for a recursive annotation.
\<close>

theorem noreturn_match:
  assumes "unwrap_final ctx (data value) s = (Inr left, s1)"
    and "unwrap_final ctx other_type0 s1 = (Inr other_type, s2)"
    and "left = NoReturn \<or> other_type = NoReturn"
    and "\<not> (is_recursive_annotation ctx other_type
             \<and> (left, other_type) \<in> recursive_annots_cache s2)"
    and "\<not> formal ctx left"
    and "\<not> is_callable_TypeParameterInstance left"
    and "\<not> is_TypeParameter other_type"
  shows "match_value_against_type (Suc depth) ctx value other_type0 subst view s =
           (Inr (if left = other_type \<or> other_type = Unsolvable \<or> left = Unsolvable
                 then Some subst else None),
            if is_recursive_annotation ctx other_type
            then s2\<lparr>recursive_annots_cache :=
                      insert (left, other_type) (recursive_annots_cache s2)\<rparr>
            else s2)"
proof -
  let ?rec = "match_value_against_type depth ctx"
  let ?s3 = "if is_recursive_annotation ctx other_type
            then s2\<lparr>recursive_annots_cache :=
                      insert (left, other_type) (recursive_annots_cache s2)\<rparr>
            else s2"
  have body: "match_value_against_type_body ?rec ctx value other_type0 subst view s =
      (case rewrite_formal ctx left ?s3 of
         (l, s3) \<Rightarrow>
           if formal ctx l then (Inl AssertionError, s3)
           else match_dispatch ?rec ctx value l other_type subst view s3)"
  proof (cases "is_recursive_annotation ctx other_type")
    case True
    with assms(4) have "(left, other_type) \<notin> recursive_annots_cache s2" by simp
    with True assms(1,2) show ?thesis by (simp add: match_value_against_type_body_def)
  next
    case False
    with assms(1,2) show ?thesis by (simp add: match_value_against_type_body_def)
  qed
  have rw: "rewrite_formal ctx left ?s3 = (left, ?s3)"
    using assms(5) by (simp add: rewrite_formal_def)
  have nr: "other_type = NoReturn \<or> left = NoReturn" using assms(3) by blast
  have disp: "match_dispatch ?rec ctx value left other_type subst view ?s3 =
      (Inr (if left = other_type \<or> other_type = Unsolvable \<or> left = Unsolvable
            then Some subst else None), ?s3)"
    unfolding match_dispatch_def using assms(6,7) nr by simp
  show ?thesis
    unfolding match_value_against_type.simps body rw using assms(5) disp by simp
qed


theorem noreturn_match_witness:
  "match_value_against_type (Suc 0) example_services (binding_of NoReturn) Unsolvable [] []
       (program_of NoReturn) = (Inr (Some []), program_of NoReturn)
   \<and> match_value_against_type (Suc 0) example_services (binding_of (Instance cls_int []))
       NoReturn [] [] (program_of (Instance cls_int []))
       = (Inr None, program_of (Instance cls_int []))"
proof -
  have u1: "unwrap_final example_services (data (binding_of NoReturn)) (program_of NoReturn)
              = (Inr NoReturn, program_of NoReturn)"
    by (simp add: unwrap_final_def binding_of_def)
  have u2: "unwrap_final example_services Unsolvable (program_of NoReturn)
              = (Inr Unsolvable, program_of NoReturn)"
    by (simp add: unwrap_final_def)
  have r1: "\<not> (is_recursive_annotation example_services Unsolvable
              \<and> (NoReturn, Unsolvable) \<in> recursive_annots_cache (program_of NoReturn))"
    by (simp add: example_services_def)
  have f1: "\<not> formal example_services NoReturn"
    by (simp add: example_services_def example_type_parameters_def)
  have a: "match_value_against_type (Suc 0) example_services (binding_of NoReturn) Unsolvable [] []
       (program_of NoReturn) = (Inr (Some []), program_of NoReturn)"
    using noreturn_match[OF u1 u2 _ r1 f1, of 0 "[]" "[]"] by (simp add: example_services_def)
  let ?i = "Instance cls_int []"
  have v1: "unwrap_final example_services (data (binding_of ?i)) (program_of ?i)
              = (Inr ?i, program_of ?i)"
    by (simp add: unwrap_final_def binding_of_def cls_int_def)
  have v2: "unwrap_final example_services NoReturn (program_of ?i) = (Inr NoReturn, program_of ?i)"
    by (simp add: unwrap_final_def)
  have r2: "\<not> (is_recursive_annotation example_services NoReturn
              \<and> (?i, NoReturn) \<in> recursive_annots_cache (program_of ?i))"
    by (simp add: example_services_def)
  have f2: "\<not> formal example_services ?i"
    by (simp add: example_services_def example_type_parameters_def)
  have b: "match_value_against_type (Suc 0) example_services (binding_of ?i) NoReturn [] []
       (program_of ?i) = (Inr None, program_of ?i)"
    using noreturn_match[OF v1 v2 _ r2 f2, of 0 "[]" "[]"] by (simp add: example_services_def)
  from a b show ?thesis by (rule conjI)
qed

section \<open>Unions on the right\<close>





















section \<open>What a call leaves of the state\<close>



lemma extends_fields [simp]:
  "extends s0 (s\<lparr>protocol_error := pe\<rparr>) = extends s0 s"
  "extends s0 (s\<lparr>noniterable_str_error := ne\<rparr>) = extends s0 s"
  "extends s0 (s\<lparr>typed_dict_error := te\<rparr>) = extends s0 s"
  "extends s0 (s\<lparr>error_subst := es\<rparr>) = extends s0 s"
  "extends s0 (s\<lparr>protocol_cache := pc\<rparr>) = extends s0 s"
  by (simp_all add: extends_def)




































































lemma AddBinding_next [simp]: "next_variable (AddBinding v d s) = next_variable s"
  by (simp add: AddBinding_def)

lemma AddBindings_next [simp]: "next_variable (AddBindings v ds s) = next_variable s"
  by (induction ds arbitrary: s) simp_all





section \<open>Substitutions and the variables they name\<close>





section \<open>The caches across top-level calls\<close>






end
